theory Spec2Isabelle
  imports Main
begin

section \<open>The provider interface\<close>

text \<open>
  \<open>toolkit.py\<close> drives five services through boto3 clients. A request is a value of
  \<open>api_call\<close>, carrying the keyword arguments the source passes. The dictionaries the
  source builds for a request are records whose fields are the dictionary keys (prefixed
  where two dictionaries share a key).
\<close>

datatype client_error = ClientError (error_code: string) (error_message: string)

text \<open>
  What a client call can raise: botocore's \<open>ClientError\<close>, the error response of a
  service, or an exception of another class, given by its name
  (\<open>ParamValidationError\<close>, \<open>NoCredentialsError\<close>, \<open>EndpointConnectionError\<close>).
  The source catches the first kind only.
\<close>

datatype raised = Client client_error | Other string

record public_access_block_configuration =
  BlockPublicAcls :: bool
  IgnorePublicAcls :: bool
  BlockPublicPolicy :: bool
  RestrictPublicBuckets :: bool

record certificate_request =
  DomainName :: string
  SubjectAlternativeNames :: "string list"
  ValidationMethod :: string
  Tags :: "(string \<times> string) list"

record hosted_zone =
  zone_Id :: string
  zone_Name :: string

record origin_access_control_config =
  oac_Name :: string
  oac_Description :: string
  SigningProtocol :: string
  SigningBehavior :: string
  OriginAccessControlOriginType :: string

record s3_origin_config =
  OriginAccessIdentity :: string

record origin =
  origin_Id :: string
  origin_DomainName :: string
  S3OriginConfig :: s3_origin_config
  OriginAccessControlId :: string

record origins =
  origins_Quantity :: int
  origins_Items :: "origin list"

record cookies =
  Forward :: string

record forwarded_values =
  QueryString :: bool
  Cookies :: cookies

record trusted_signers =
  signers_Enabled :: bool
  signers_Quantity :: int

record default_cache_behavior =
  TargetOriginId :: string
  ViewerProtocolPolicy :: string
  MinTTL :: int
  ForwardedValues :: forwarded_values
  TrustedSigners :: trusted_signers

record aliases =
  aliases_Quantity :: int
  aliases_Items :: "string list"

record viewer_certificate =
  ACMCertificateArn :: string
  SSLSupportMethod :: string
  MinimumProtocolVersion :: string

record distribution_config =
  CallerReference :: string
  Comment :: string
  DefaultRootObject :: string
  Origins :: origins
  DefaultCacheBehavior :: default_cache_behavior
  Enabled :: bool
  Aliases :: aliases
  ViewerCertificate :: viewer_certificate
  PriceClass :: string

record policy_statement =
  Effect :: string
  Principal_Service :: string
  policy_Action :: string
  Resource :: string
  Condition_StringEquals_SourceArn :: string

record bucket_policy =
  Version :: string
  Statement :: "policy_statement list"

record alias_target =
  DNSName :: string
  EvaluateTargetHealth :: bool
  alias_HostedZoneId :: string

record resource_record_set =
  record_Name :: string
  record_Type :: string
  AliasTarget :: alias_target

record change =
  change_Action :: string
  ResourceRecordSet :: resource_record_set

text \<open>
  \<open>PutBucketPolicy\<close> carries the policy document itself; the source sends its
  \<open>json.dumps\<close> rendering.
\<close>

datatype api_call =
    CreateBucket string "string option"
  | PutBucketVersioning string string
  | PutPublicAccessBlock string public_access_block_configuration
  | RequestCertificate certificate_request
  | DescribeCertificate string
  | ListHostedZones
  | CreateOriginAccessControl origin_access_control_config
  | CreateDistribution distribution_config
  | GetCallerIdentity
  | PutBucketPolicy string bucket_policy
  | ChangeResourceRecordSets string "change list"
  | HeadBucket string
  | GetDistribution string

text \<open>
  A client call returns a response or raises. What it does may depend on every call
  made so far: each field below maps the log of calls, the current one last, to the
  outcome.
  A response is the part of the reply the source reads: \<open>['CertificateArn']\<close>,
  \<open>['Certificate']['Status']\<close>, \<open>['HostedZones']\<close> with \<open>Id\<close> and \<open>Name\<close>,
  \<open>['OriginAccessControl']['Id']\<close>, \<open>['Distribution']\<close> with \<open>Id\<close> and
  \<open>DomainName\<close>, \<open>['Account']\<close>, \<open>['Distribution']['Status']\<close>.
\<close>

record provider =
  create_bucket :: "api_call list \<Rightarrow> raised + unit"
  put_bucket_versioning :: "api_call list \<Rightarrow> raised + unit"
  put_public_access_block :: "api_call list \<Rightarrow> raised + unit"
  request_certificate :: "api_call list \<Rightarrow> raised + string"
  describe_certificate :: "api_call list \<Rightarrow> raised + string"
  list_hosted_zones :: "api_call list \<Rightarrow> raised + hosted_zone list"
  create_origin_access_control :: "api_call list \<Rightarrow> raised + string"
  create_distribution :: "api_call list \<Rightarrow> raised + string \<times> string"
  get_caller_identity :: "api_call list \<Rightarrow> raised + string"
  put_bucket_policy :: "api_call list \<Rightarrow> raised + unit"
  change_resource_record_sets :: "api_call list \<Rightarrow> raised + unit"
  head_bucket :: "api_call list \<Rightarrow> raised + unit"
  get_distribution :: "api_call list \<Rightarrow> raised + string"

section \<open>The object state\<close>

text \<open>
  \<open>self.resources\<close>: a key holding Python's \<open>None\<close>, and the key
  \<open>'cloudfront_domain'\<close> while it is absent, are \<open>None\<close>.
\<close>

record ledger =
  ledger_bucket_name :: string
  certificate_arn :: "string option"
  distribution_id :: "string option"
  hosted_zone_id :: "string option"
  cloudfront_domain :: "string option"

text \<open>
  A \<open>BlogInfrastructure\<close> object: its attributes, the region of its S3 client
  (\<open>self.s3.meta.region_name\<close>), and the log of the client calls made so far.
\<close>

record blog =
  domain_name :: string
  www_domain :: string
  bucket_name :: string
  region_name :: string
  resources :: ledger
  calls :: "api_call list"

definition init :: "string \<Rightarrow> string \<Rightarrow> blog" where
  "init domain region =
     \<lparr>domain_name = domain,
      www_domain = ''www.'' @ domain,
      bucket_name = domain,
      region_name = region,
      resources = \<lparr>ledger_bucket_name = domain, certificate_arn = None,
                   distribution_id = None, hosted_zone_id = None,
                   cloudfront_domain = None\<rparr>,
      calls = []\<rparr>"

section \<open>Methods as state transformers that may raise\<close>

type_synonym 'a io = "blog \<Rightarrow> (raised + 'a) \<times> blog"

definition io_return :: "'a \<Rightarrow> 'a io" where
  "io_return x b = (Inr x, b)"

definition io_bind :: "'a io \<Rightarrow> ('a \<Rightarrow> 'b io) \<Rightarrow> 'b io" where
  "io_bind m f b = (case m b of (Inl e, b') \<Rightarrow> (Inl e, b') | (Inr x, b') \<Rightarrow> f x b')"

text \<open>\<open>try: m except ClientError as e: h\<close>; any other exception passes through.\<close>

definition try_except :: "'a io \<Rightarrow> (client_error \<Rightarrow> 'a io) \<Rightarrow> 'a io" where
  "try_except m h b =
     (case m b of
        (Inl (Client e), b') \<Rightarrow> h e b'
      | (Inl (Other x), b') \<Rightarrow> (Inl (Other x), b')
      | (Inr x, b') \<Rightarrow> (Inr x, b'))"

definition io_update :: "(ledger \<Rightarrow> ledger) \<Rightarrow> unit io" where
  "io_update f b = (Inr (), b\<lparr>resources := f (resources b)\<rparr>)"

definition call_api :: "(api_call list \<Rightarrow> raised + 'r) \<Rightarrow> api_call \<Rightarrow> 'r io" where
  "call_api answer c b = (answer (calls b @ [c]), b\<lparr>calls := calls b @ [c]\<rparr>)"

text \<open>The calls a method made: what it appended to the log.\<close>

definition issued :: "'a io \<Rightarrow> blog \<Rightarrow> api_call list" where
  "issued m b = drop (length (calls b)) (calls (snd (m b)))"

text \<open>Python's truth value of an \<open>Optional[str]\<close>: \<open>None\<close> and \<open>''\<close> are false.\<close>

fun truthy :: "string option \<Rightarrow> bool" where
  "truthy None = False"
| "truthy (Some s) = (s \<noteq> [])"

subsection \<open>Strings\<close>

text \<open>\<open>s.rstrip(c)\<close> for a single character \<open>c\<close>: every trailing \<open>c\<close> goes.\<close>

definition rstrip :: "char \<Rightarrow> string \<Rightarrow> string" where
  "rstrip c s = rev (dropWhile (\<lambda>x. x = c) (rev s))"

text \<open>The decimal rendering of an integer, as an f-string formats it.\<close>

definition digit_char :: "nat \<Rightarrow> char" where
  "digit_char d = ''0123456789'' ! d"

function str_nat :: "nat \<Rightarrow> string" where
  "str_nat n = (if n < 10 then [digit_char n] else str_nat (n div 10) @ [digit_char (n mod 10)])"
  by pat_completeness auto
termination
  by (relation "measure id") auto

declare str_nat.simps [simp del]

definition str_int :: "int \<Rightarrow> string" where
  "str_int i = (if i < 0 then CHR ''-'' # str_nat (nat (- i)) else str_nat (nat i))"

section \<open>The methods of \<open>BlogInfrastructure\<close>\<close>

text \<open>
  Each method takes the provider and the object and returns its result (or the
  exception that leaves it) with the object afterwards. Printing is left out.
\<close>

subsection \<open>\<open>create_s3_bucket\<close>\<close>

text \<open>The bucket is created without a location constraint in \<open>us-east-1\<close> only.\<close>

definition create_bucket_request :: "blog \<Rightarrow> api_call" where
  "create_bucket_request self =
     (if region_name self = ''us-east-1'' then CreateBucket (bucket_name self) None
      else CreateBucket (bucket_name self) (Some (region_name self)))"

text \<open>The \<open>try\<close> block.\<close>

definition create_s3_bucket_body :: "provider \<Rightarrow> bool io" where
  "create_s3_bucket_body P self =
     io_bind (call_api (create_bucket P) (create_bucket_request self)) (\<lambda>_.
     io_bind (call_api (put_bucket_versioning P)
                (PutBucketVersioning (bucket_name self) ''Enabled'')) (\<lambda>_.
     io_bind (call_api (put_public_access_block P)
                (PutPublicAccessBlock (bucket_name self)
                   \<lparr>BlockPublicAcls = True, IgnorePublicAcls = True,
                    BlockPublicPolicy = True, RestrictPublicBuckets = True\<rparr>)) (\<lambda>_.
     io_return True))) self"

definition create_s3_bucket :: "provider \<Rightarrow> bool io" where
  "create_s3_bucket P =
     try_except (create_s3_bucket_body P)
       (\<lambda>e. if error_code e = ''BucketAlreadyOwnedByYou'' then io_return True
            else io_return False)"

subsection \<open>\<open>request_ssl_certificate\<close>\<close>

definition request_ssl_certificate :: "provider \<Rightarrow> string option io" where
  "request_ssl_certificate P self =
     try_except
       (io_bind (call_api (request_certificate P)
                   (RequestCertificate
                      \<lparr>DomainName = domain_name self,
                       SubjectAlternativeNames = [www_domain self],
                       ValidationMethod = ''DNS'',
                       Tags = [(''Name'', domain_name self @ '' Blog Certificate''),
                               (''Purpose'', ''Blog'')]\<rparr>)) (\<lambda>arn.
        io_bind (io_update (\<lambda>r. r\<lparr>certificate_arn := Some arn\<rparr>)) (\<lambda>_.
        io_return (Some arn))))
       (\<lambda>e. io_return None) self"

subsection \<open>\<open>get_hosted_zone_id\<close>\<close>

text \<open>The \<open>for\<close> loop over \<open>response['HostedZones']\<close>, leaving at the first match.\<close>

fun scan_zones :: "string \<Rightarrow> hosted_zone list \<Rightarrow> string option" where
  "scan_zones d [] = None"
| "scan_zones d (zone # zones) =
     (if rstrip CHR ''.'' (zone_Name zone) = d then Some (zone_Id zone)
      else scan_zones d zones)"

definition get_hosted_zone_id :: "provider \<Rightarrow> string option io" where
  "get_hosted_zone_id P self =
     try_except
       (io_bind (call_api (list_hosted_zones P) ListHostedZones) (\<lambda>zones.
        case scan_zones (domain_name self) zones of
          Some zid \<Rightarrow>
            io_bind (io_update (\<lambda>r. r\<lparr>hosted_zone_id := Some zid\<rparr>)) (\<lambda>_.
            io_return (Some zid))
        | None \<Rightarrow> io_return None))
       (\<lambda>e. io_return None) self"

subsection \<open>\<open>create_cloudfront_distribution\<close> and \<open>_update_s3_bucket_policy\<close>\<close>

definition oac_config :: "blog \<Rightarrow> origin_access_control_config" where
  "oac_config self =
     \<lparr>oac_Name = domain_name self @ ''-oac'',
      oac_Description = ''OAC for '' @ domain_name self @ '' blog'',
      SigningProtocol = ''sigv4'',
      SigningBehavior = ''always'',
      OriginAccessControlOriginType = ''s3''\<rparr>"

text \<open>\<open>now\<close> is \<open>int(time.time())\<close>, the clock's reading in whole seconds.\<close>

definition distribution_config :: "blog \<Rightarrow> int \<Rightarrow> string \<Rightarrow> string \<Rightarrow> distribution_config" where
  "distribution_config self now certificate oac_id =
     \<lparr>CallerReference = domain_name self @ ''-'' @ str_int now,
      Comment = ''Blog distribution for '' @ domain_name self,
      DefaultRootObject = ''index.html'',
      Origins =
        \<lparr>origins_Quantity = 1,
         origins_Items =
           [\<lparr>origin_Id = bucket_name self @ ''-origin'',
             origin_DomainName = bucket_name self @ ''.s3.amazonaws.com'',
             S3OriginConfig = \<lparr>OriginAccessIdentity = []\<rparr>,
             OriginAccessControlId = oac_id\<rparr>]\<rparr>,
      DefaultCacheBehavior =
        \<lparr>TargetOriginId = bucket_name self @ ''-origin'',
         ViewerProtocolPolicy = ''redirect-to-https'',
         MinTTL = 0,
         ForwardedValues = \<lparr>QueryString = False, Cookies = \<lparr>Forward = ''none''\<rparr>\<rparr>,
         TrustedSigners = \<lparr>signers_Enabled = False, signers_Quantity = 0\<rparr>\<rparr>,
      Enabled = True,
      Aliases = \<lparr>aliases_Quantity = 2, aliases_Items = [domain_name self, www_domain self]\<rparr>,
      ViewerCertificate =
        \<lparr>ACMCertificateArn = certificate,
         SSLSupportMethod = ''sni-only'',
         MinimumProtocolVersion = ''TLSv1.2_2021''\<rparr>,
      PriceClass = ''PriceClass_100''\<rparr>"

definition source_arn :: "string \<Rightarrow> string \<Rightarrow> string" where
  "source_arn account distribution =
     ''arn:aws:cloudfront::'' @ account @ '':distribution/'' @ distribution"

definition bucket_policy :: "blog \<Rightarrow> string \<Rightarrow> string \<Rightarrow> bucket_policy" where
  "bucket_policy self account distribution =
     \<lparr>Version = ''2012-10-17'',
      Statement =
        [\<lparr>Effect = ''Allow'',
          Principal_Service = ''cloudfront.amazonaws.com'',
          policy_Action = ''s3:GetObject'',
          Resource = ''arn:aws:s3:::'' @ bucket_name self @ ''/*'',
          Condition_StringEquals_SourceArn = source_arn account distribution\<rparr>]\<rparr>"

text \<open>
  The account is asked for while the policy dictionary is built, before the method's
  own \<open>try\<close>: an exception of that call leaves the method.
\<close>

definition update_s3_bucket_policy :: "provider \<Rightarrow> string \<Rightarrow> unit io" where
  "update_s3_bucket_policy P distribution self =
     io_bind (call_api (get_caller_identity P) GetCallerIdentity) (\<lambda>account.
     try_except
       (call_api (put_bucket_policy P)
          (PutBucketPolicy (bucket_name self) (bucket_policy self account distribution)))
       (\<lambda>e. io_return ())) self"

definition create_cloudfront_distribution :: "provider \<Rightarrow> int \<Rightarrow> string \<Rightarrow> string option io" where
  "create_cloudfront_distribution P now certificate self =
     try_except
       (io_bind (call_api (create_origin_access_control P)
                   (CreateOriginAccessControl (oac_config self))) (\<lambda>oac_id.
        io_bind (call_api (create_distribution P)
                   (CreateDistribution (distribution_config self now certificate oac_id)))
          (\<lambda>(distribution, domain).
        io_bind (io_update (\<lambda>r. r\<lparr>distribution_id := Some distribution,
                                    cloudfront_domain := Some domain\<rparr>)) (\<lambda>_.
        io_bind (update_s3_bucket_policy P distribution) (\<lambda>_.
        io_return (Some distribution))))))
       (\<lambda>e. io_return None) self"

subsection \<open>\<open>create_route53_records\<close>\<close>

definition alias_record :: "string \<Rightarrow> string \<Rightarrow> change" where
  "alias_record name cloudfront =
     \<lparr>change_Action = ''UPSERT'',
      ResourceRecordSet =
        \<lparr>record_Name = name,
         record_Type = ''A'',
         AliasTarget = \<lparr>DNSName = cloudfront, EvaluateTargetHealth = False,
                        alias_HostedZoneId = ''Z2FDTNDATAQYW2''\<rparr>\<rparr>\<rparr>"

definition create_route53_records :: "provider \<Rightarrow> string \<Rightarrow> bool io" where
  "create_route53_records P cloudfront self =
     io_bind (get_hosted_zone_id P) (\<lambda>zone.
       case zone of
         None \<Rightarrow> io_return False
       | Some zid \<Rightarrow>
           if zid = [] then io_return False
           else
             try_except
               (io_bind (call_api (change_resource_record_sets P)
                           (ChangeResourceRecordSets zid
                              [alias_record (domain_name self) cloudfront])) (\<lambda>_.
                io_bind (call_api (change_resource_record_sets P)
                           (ChangeResourceRecordSets zid
                              [alias_record (www_domain self) cloudfront])) (\<lambda>_.
                io_return True)))
               (\<lambda>e. io_return False)) self"

subsection \<open>\<open>deploy_full_infrastructure\<close>\<close>



subsection \<open>\<open>get_status\<close>\<close>

text \<open>The status dictionary; the two optional keys are \<open>None\<close> while absent.\<close>

record status =
  domain :: string
  status_resources :: ledger
  s3_bucket :: string
  certificate_status :: "string option"
  distribution_status :: "string option"

definition check_certificate :: "provider \<Rightarrow> string option io" where
  "check_certificate P self =
     (case certificate_arn (resources self) of
        None \<Rightarrow> io_return None
      | Some arn \<Rightarrow>
          if arn = [] then io_return None
          else
            try_except
              (io_bind (call_api (describe_certificate P) (DescribeCertificate arn))
                 (\<lambda>st. io_return (Some st)))
              (\<lambda>e. io_return (Some ''error''))) self"

definition check_distribution :: "provider \<Rightarrow> string option io" where
  "check_distribution P self =
     (case distribution_id (resources self) of
        None \<Rightarrow> io_return None
      | Some did \<Rightarrow>
          if did = [] then io_return None
          else
            try_except
              (io_bind (call_api (get_distribution P) (GetDistribution did))
                 (\<lambda>st. io_return (Some st)))
              (\<lambda>e. io_return (Some ''error''))) self"

definition check_bucket :: "provider \<Rightarrow> string io" where
  "check_bucket P self =
     try_except
       (io_bind (call_api (head_bucket P) (HeadBucket (bucket_name self))) (\<lambda>_.
        io_return ''exists''))
       (\<lambda>e. io_return ''missing'') self"

definition get_status :: "provider \<Rightarrow> status io" where
  "get_status P self =
     io_bind (check_bucket P) (\<lambda>bucket.
     io_bind (check_certificate P) (\<lambda>certificate.
     io_bind (check_distribution P) (\<lambda>distribution.
     io_return
       \<lparr>domain = domain_name self,
        status_resources = resources self,
        s3_bucket = bucket,
        certificate_status = certificate,
        distribution_status = distribution\<rparr>))) self"

section \<open>What the provider does to the bucket stage\<close>

text \<open>
  The three requests in the \<open>try\<close> block of \<open>create_s3_bucket\<close>, in the order sent.
  The provider answers the \<open>k\<close>-th of them at the log \<open>bucket_log self k\<close>.
\<close>

definition bucket_requests :: "blog \<Rightarrow> api_call list" where
  "bucket_requests self =
     [create_bucket_request self,
      PutBucketVersioning (bucket_name self) ''Enabled'',
      PutPublicAccessBlock (bucket_name self)
        \<lparr>BlockPublicAcls = True, IgnorePublicAcls = True,
         BlockPublicPolicy = True, RestrictPublicBuckets = True\<rparr>]"

definition bucket_log :: "blog \<Rightarrow> nat \<Rightarrow> api_call list" where
  "bucket_log self k = calls self @ take k (bucket_requests self)"

text \<open>All three requests are accepted.\<close>

definition bucket_stage_accepted :: "provider \<Rightarrow> blog \<Rightarrow> bool" where
  "bucket_stage_accepted P self \<longleftrightarrow>
     create_bucket P (bucket_log self 1) = Inr () \<and>
     put_bucket_versioning P (bucket_log self 2) = Inr () \<and>
     put_public_access_block P (bucket_log self 3) = Inr ()"

text \<open>
  The first request that is not accepted is refused with the \<open>ClientError\<close> \<open>e\<close>.
\<close>

definition bucket_stage_refused :: "provider \<Rightarrow> blog \<Rightarrow> client_error \<Rightarrow> bool" where
  "bucket_stage_refused P self e \<longleftrightarrow>
     create_bucket P (bucket_log self 1) = Inl (Client e) \<or>
     create_bucket P (bucket_log self 1) = Inr () \<and>
       put_bucket_versioning P (bucket_log self 2) = Inl (Client e) \<or>
     create_bucket P (bucket_log self 1) = Inr () \<and>
       put_bucket_versioning P (bucket_log self 2) = Inr () \<and>
       put_public_access_block P (bucket_log self 3) = Inl (Client e)"

section \<open>What \<open>create_route53_records\<close> sends\<close>

text \<open>The zone listing and the two upserts, in the order sent.\<close>

definition route53_requests :: "blog \<Rightarrow> string \<Rightarrow> string \<Rightarrow> api_call list" where
  "route53_requests self zone cloudfront =
     [ListHostedZones,
      ChangeResourceRecordSets zone [alias_record (domain_name self) cloudfront],
      ChangeResourceRecordSets zone [alias_record (www_domain self) cloudfront]]"

section \<open>What \<open>get_status\<close> asks\<close>

text \<open>
  The logs at which the provider answers the three queries of \<open>get_status\<close>. The
  certificate and the distribution are asked about only when the ledger holds them.
\<close>

definition bucket_probe_log :: "blog \<Rightarrow> api_call list" where
  "bucket_probe_log self = calls self @ [HeadBucket (bucket_name self)]"

definition certificate_query_log :: "blog \<Rightarrow> api_call list" where
  "certificate_query_log self =
     bucket_probe_log self @ [DescribeCertificate (the (certificate_arn (resources self)))]"

definition distribution_query_log :: "blog \<Rightarrow> api_call list" where
  "distribution_query_log self =
     (if truthy (certificate_arn (resources self)) then certificate_query_log self
      else bucket_probe_log self) @
     [GetDistribution (the (distribution_id (resources self)))]"

text \<open>
  A call the source handles: it returns, or it raises a \<open>ClientError\<close>.
\<close>

fun handled :: "raised + 'a \<Rightarrow> bool" where
  "handled (Inl (Other x)) = False"
| "handled (Inl (Client e)) = True"
| "handled (Inr r) = True"

text \<open>Every query \<open>get_status\<close> makes is one the source handles.\<close>

definition status_queries_handled :: "provider \<Rightarrow> blog \<Rightarrow> bool" where
  "status_queries_handled P self \<longleftrightarrow>
     handled (head_bucket P (bucket_probe_log self)) \<and>
     (if truthy (certificate_arn (resources self))
      then handled (describe_certificate P (certificate_query_log self)) else True) \<and>
     (if truthy (distribution_id (resources self))
      then handled (get_distribution P (distribution_query_log self)) else True)"

section \<open>Example providers and objects\<close>

definition example_zones :: "hosted_zone list" where
  "example_zones =
     [\<lparr>zone_Id = ''/hostedzone/Z0EXAMPLEORG'', zone_Name = ''example.org.''\<rparr>,
      \<lparr>zone_Id = ''/hostedzone/Z1EXAMPLECOM'', zone_Name = ''example.com.''\<rparr>,
      \<lparr>zone_Id = ''/hostedzone/Z2EXAMPLECOM'', zone_Name = ''example.com.''\<rparr>]"

text \<open>A provider that accepts every request.\<close>

definition ok_provider :: provider where
  "ok_provider =
     \<lparr>create_bucket = (\<lambda>_. Inr ()),
      put_bucket_versioning = (\<lambda>_. Inr ()),
      put_public_access_block = (\<lambda>_. Inr ()),
      request_certificate = (\<lambda>_. Inr ''arn:aws:acm:us-east-1:111122223333:certificate/new''),
      describe_certificate = (\<lambda>_. Inr ''PENDING_VALIDATION''),
      list_hosted_zones = (\<lambda>_. Inr example_zones),
      create_origin_access_control = (\<lambda>_. Inr ''E1OAC''),
      create_distribution = (\<lambda>_. Inr (''E2DIST'', ''d111.cloudfront.net'')),
      get_caller_identity = (\<lambda>_. Inr ''111122223333''),
      put_bucket_policy = (\<lambda>_. Inr ()),
      change_resource_record_sets = (\<lambda>_. Inr ()),
      head_bucket = (\<lambda>_. Inr ()),
      get_distribution = (\<lambda>_. Inr ''InProgress'')\<rparr>"

definition access_denied :: client_error where
  "access_denied = ClientError ''AccessDenied'' ''Access Denied''"

definition already_owned :: client_error where
  "already_owned =
     ClientError ''BucketAlreadyOwnedByYou''
       ''Your previous request to create the named bucket succeeded and you already own it.''"

text \<open>A provider that reports the bucket as already owned by the caller.\<close>

definition owning_provider :: provider where
  "owning_provider = ok_provider\<lparr>create_bucket := \<lambda>_. Inl (Client already_owned)\<rparr>"

text \<open>A provider that refuses every request.\<close>

definition denying_provider :: provider where
  "denying_provider =
     \<lparr>create_bucket = (\<lambda>_. Inl (Client access_denied)),
      put_bucket_versioning = (\<lambda>_. Inl (Client access_denied)),
      put_public_access_block = (\<lambda>_. Inl (Client access_denied)),
      request_certificate = (\<lambda>_. Inl (Client access_denied)),
      describe_certificate = (\<lambda>_. Inl (Client access_denied)),
      list_hosted_zones = (\<lambda>_. Inl (Client access_denied)),
      create_origin_access_control = (\<lambda>_. Inl (Client access_denied)),
      create_distribution = (\<lambda>_. Inl (Client access_denied)),
      get_caller_identity = (\<lambda>_. Inl (Client access_denied)),
      put_bucket_policy = (\<lambda>_. Inl (Client access_denied)),
      change_resource_record_sets = (\<lambda>_. Inl (Client access_denied)),
      head_bucket = (\<lambda>_. Inl (Client access_denied)),
      get_distribution = (\<lambda>_. Inl (Client access_denied))\<rparr>"

text \<open>A provider that accepts every request but the certificate request.\<close>

definition uncertified_provider :: provider where
  "uncertified_provider = ok_provider\<lparr>request_certificate := \<lambda>_. Inl (Client access_denied)\<rparr>"

text \<open>Providers that accept every request but one of the status queries.\<close>

definition no_certificate_status_provider :: provider where
  "no_certificate_status_provider =
     ok_provider\<lparr>describe_certificate := \<lambda>_. Inl (Client access_denied)\<rparr>"

definition no_distribution_status_provider :: provider where
  "no_distribution_status_provider =
     ok_provider\<lparr>get_distribution := \<lambda>_. Inl (Client access_denied)\<rparr>"

text \<open>
  A client that validates the bucket name before it sends the probe: an empty name
  raises \<open>ParamValidationError\<close>.
\<close>

definition validating_provider :: provider where
  "validating_provider =
     ok_provider\<lparr>head_bucket :=
       \<lambda>log. if last log = HeadBucket [] then Inl (Other ''ParamValidationError'')
             else Inr ()\<rparr>"

text \<open>A client without credentials: every call raises \<open>NoCredentialsError\<close>.\<close>

definition no_credentials_provider :: provider where
  "no_credentials_provider =
     \<lparr>create_bucket = (\<lambda>_. Inl (Other ''NoCredentialsError'')),
      put_bucket_versioning = (\<lambda>_. Inl (Other ''NoCredentialsError'')),
      put_public_access_block = (\<lambda>_. Inl (Other ''NoCredentialsError'')),
      request_certificate = (\<lambda>_. Inl (Other ''NoCredentialsError'')),
      describe_certificate = (\<lambda>_. Inl (Other ''NoCredentialsError'')),
      list_hosted_zones = (\<lambda>_. Inl (Other ''NoCredentialsError'')),
      create_origin_access_control = (\<lambda>_. Inl (Other ''NoCredentialsError'')),
      create_distribution = (\<lambda>_. Inl (Other ''NoCredentialsError'')),
      get_caller_identity = (\<lambda>_. Inl (Other ''NoCredentialsError'')),
      put_bucket_policy = (\<lambda>_. Inl (Other ''NoCredentialsError'')),
      change_resource_record_sets = (\<lambda>_. Inl (Other ''NoCredentialsError'')),
      head_bucket = (\<lambda>_. Inl (Other ''NoCredentialsError'')),
      get_distribution = (\<lambda>_. Inl (Other ''NoCredentialsError''))\<rparr>"

definition example_blog :: blog where
  "example_blog = init ''example.com'' ''us-east-1''"

text \<open>
  The object after \<open>request_ssl_certificate\<close> has run against \<open>ok_provider\<close>: the
  ledger holds the certificate.
\<close>

definition certified_blog :: blog where
  "certified_blog = snd (request_ssl_certificate ok_provider example_blog)"

text \<open>
  The object after \<open>request_ssl_certificate\<close> and \<open>create_cloudfront_distribution\<close>
  have run against \<open>ok_provider\<close>: the ledger holds the certificate, the distribution
  and the distribution's domain.
\<close>

definition deployed_blog :: blog where
  "deployed_blog =
     snd (create_cloudfront_distribution ok_provider 1700000000
            ''arn:aws:acm:us-east-1:111122223333:certificate/new''
            (snd (request_ssl_certificate ok_provider example_blog)))"

section \<open>The bucket stage\<close>

lemmas io_defs = io_return_def io_bind_def try_except_def io_update_def call_api_def

lemmas example_defs = ok_provider_def owning_provider_def denying_provider_def
  uncertified_provider_def already_owned_def access_denied_def example_blog_def init_def
  example_zones_def no_certificate_status_provider_def no_distribution_status_provider_def

lemma bucket_log_simps:
  "bucket_log self (Suc 0) = calls self @ take 1 (bucket_requests self)"
  "bucket_log self 1 = calls self @ take 1 (bucket_requests self)"
  "bucket_log self 2 = calls self @ take 2 (bucket_requests self)"
  "bucket_log self 3 = calls self @ bucket_requests self"
  by (simp_all add: bucket_log_def bucket_requests_def)

lemma take_bucket_requests:
  "take 1 (bucket_requests self) = [create_bucket_request self]"
  "take 2 (bucket_requests self) =
     [create_bucket_request self, PutBucketVersioning (bucket_name self) ''Enabled'']"
  by (simp_all add: bucket_requests_def numeral_2_eq_2)

lemma create_s3_bucket_body_accepted:
  "bucket_stage_accepted P self \<Longrightarrow>
     create_s3_bucket_body P self = (Inr True, self\<lparr>calls := bucket_log self 3\<rparr>)"
  by (simp add: bucket_stage_accepted_def bucket_log_simps take_bucket_requests create_s3_bucket_body_def
      bucket_requests_def io_defs)

lemma create_s3_bucket_body_refused:
  "bucket_stage_refused P self e \<Longrightarrow>
     \<exists>k\<in>{1, 2, 3}. create_s3_bucket_body P self =
        (Inl (Client e), self\<lparr>calls := bucket_log self k\<rparr>)"
  unfolding bucket_stage_refused_def
  by (auto simp: bucket_log_simps take_bucket_requests create_s3_bucket_body_def bucket_requests_def io_defs)

lemma create_s3_bucket_refused:
  assumes "bucket_stage_refused P self e"
  shows "\<exists>k\<in>{1, 2, 3}. create_s3_bucket P self =
           (Inr (error_code e = ''BucketAlreadyOwnedByYou''), self\<lparr>calls := bucket_log self k\<rparr>)"
proof -
  from create_s3_bucket_body_refused [OF assms] obtain k where k: "k \<in> {1, 2, 3}"
    and body: "create_s3_bucket_body P self = (Inl (Client e), self\<lparr>calls := bucket_log self k\<rparr>)"
    by blast
  from body have "create_s3_bucket P self =
      (Inr (error_code e = ''BucketAlreadyOwnedByYou''), self\<lparr>calls := bucket_log self k\<rparr>)"
    by (simp add: create_s3_bucket_def try_except_def io_return_def)
  with k show ?thesis by blast
qed

lemma create_s3_bucket_accepted:
  "bucket_stage_accepted P self \<Longrightarrow>
     create_s3_bucket P self = (Inr True, self\<lparr>calls := bucket_log self 3\<rparr>)"
  by (simp add: create_s3_bucket_def try_except_def create_s3_bucket_body_accepted)

text \<open>
  When the requests are neither all accepted nor refused with a \<open>ClientError\<close>, one
  of them raised another exception, and that exception leaves the method.
\<close>

lemma outcome_cases:
  fixes r :: "raised + unit"
  shows "r = Inr () \<or> (\<exists>e. r = Inl (Client e)) \<or> (\<exists>x. r = Inl (Other x))"
proof (cases r)
  case (Inl a)
  then show ?thesis by (cases a) simp_all
next
  case (Inr u)
  then show ?thesis by simp
qed

lemma create_s3_bucket_body_other:
  "create_bucket P (bucket_log self 1) = Inl (Other x) \<or>
   create_bucket P (bucket_log self 1) = Inr () \<and>
     put_bucket_versioning P (bucket_log self 2) = Inl (Other x) \<or>
   create_bucket P (bucket_log self 1) = Inr () \<and>
     put_bucket_versioning P (bucket_log self 2) = Inr () \<and>
     put_public_access_block P (bucket_log self 3) = Inl (Other x) \<Longrightarrow>
   fst (create_s3_bucket P self) = Inl (Other x)"
  by (auto simp: bucket_log_simps take_bucket_requests create_s3_bucket_def
      create_s3_bucket_body_def bucket_requests_def io_defs)

lemma bucket_stage_answered:
  "bucket_stage_accepted P self \<or> (\<exists>e. bucket_stage_refused P self e) \<or>
   (\<exists>x. fst (create_s3_bucket P self) = Inl (Other x))"
proof -
  from outcome_cases [of "create_bucket P (bucket_log self 1)"]
    outcome_cases [of "put_bucket_versioning P (bucket_log self 2)"]
    outcome_cases [of "put_public_access_block P (bucket_log self 3)"]
  consider "bucket_stage_accepted P self" | e where "bucket_stage_refused P self e"
    | x where "create_bucket P (bucket_log self 1) = Inl (Other x) \<or>
        create_bucket P (bucket_log self 1) = Inr () \<and>
          put_bucket_versioning P (bucket_log self 2) = Inl (Other x) \<or>
        create_bucket P (bucket_log self 1) = Inr () \<and>
          put_bucket_versioning P (bucket_log self 2) = Inr () \<and>
          put_public_access_block P (bucket_log self 3) = Inl (Other x)"
    unfolding bucket_stage_accepted_def bucket_stage_refused_def by blast
  then show ?thesis
    using create_s3_bucket_body_other [of P self] by cases blast+
qed

text \<open>
  C6. \<open>create_s3_bucket\<close> returns \<open>True\<close> when the provider accepts the three requests
  (the bucket is newly created and configured), and when the first request it refuses
  is refused with the code \<open>BucketAlreadyOwnedByYou\<close>; when the first refusal carries
  any other code it returns \<open>False\<close>. In every other case a request raised an
  exception that is not a \<open>ClientError\<close>, and that exception leaves the method.
\<close>

theorem create_s3_bucket_outcome:
  "(bucket_stage_accepted P self \<or> (\<exists>refusal. bucket_stage_refused P self refusal) \<or>
    (\<exists>x. fst (create_s3_bucket P self) = Inl (Other x))) \<and>
   (bucket_stage_accepted P self \<longrightarrow> fst (create_s3_bucket P self) = Inr True) \<and>
   (bucket_stage_refused P self e \<and> error_code e = ''BucketAlreadyOwnedByYou'' \<longrightarrow>
      fst (create_s3_bucket P self) = Inr True) \<and>
   (bucket_stage_refused P self e \<and> error_code e \<noteq> ''BucketAlreadyOwnedByYou'' \<longrightarrow>
      fst (create_s3_bucket P self) = Inr False)"
proof (intro conjI impI)
  show "bucket_stage_accepted P self \<or> (\<exists>refusal. bucket_stage_refused P self refusal) \<or>
    (\<exists>x. fst (create_s3_bucket P self) = Inl (Other x))"
    by (rule bucket_stage_answered)
next
  assume "bucket_stage_accepted P self"
  then show "fst (create_s3_bucket P self) = Inr True"
    by (simp add: create_s3_bucket_accepted)
next
  assume "bucket_stage_refused P self e \<and> error_code e = ''BucketAlreadyOwnedByYou''"
  then show "fst (create_s3_bucket P self) = Inr True"
    using create_s3_bucket_refused [of P self e] by auto
next
  assume "bucket_stage_refused P self e \<and> error_code e \<noteq> ''BucketAlreadyOwnedByYou''"
  then show "fst (create_s3_bucket P self) = Inr False"
    using create_s3_bucket_refused [of P self e] by auto
qed

theorem create_s3_bucket_outcome_witness:
  "(bucket_stage_accepted ok_provider example_blog \<and>
      fst (create_s3_bucket ok_provider example_blog) = Inr True) \<and>
   (bucket_stage_refused owning_provider example_blog already_owned \<and>
      error_code already_owned = ''BucketAlreadyOwnedByYou'' \<and>
      fst (create_s3_bucket owning_provider example_blog) = Inr True) \<and>
   (bucket_stage_refused denying_provider example_blog access_denied \<and>
      error_code access_denied \<noteq> ''BucketAlreadyOwnedByYou'' \<and>
      fst (create_s3_bucket denying_provider example_blog) = Inr False)"
  using create_s3_bucket_outcome [of ok_provider example_blog]
    create_s3_bucket_outcome [of owning_provider example_blog already_owned]
    create_s3_bucket_outcome [of denying_provider example_blog access_denied]
  by (simp add: bucket_stage_accepted_def bucket_stage_refused_def ok_provider_def
      owning_provider_def denying_provider_def already_owned_def access_denied_def)

section \<open>The deploy pipeline\<close>




section \<open>The hosted zone\<close>

lemma scan_zones_find:
  "scan_zones d zones =
     map_option zone_Id (find (\<lambda>zone. rstrip CHR ''.'' (zone_Name zone) = d) zones)"
  by (induction zones) simp_all

lemma scan_zones_first:
  "\<forall>zone\<in>set before. rstrip CHR ''.'' (zone_Name zone) \<noteq> d \<Longrightarrow>
   rstrip CHR ''.'' (zone_Name z) = d \<Longrightarrow>
   scan_zones d (before @ z # rest) = Some (zone_Id z)"
  by (induction before) simp_all

lemma scan_zones_none:
  "\<forall>zone\<in>set zones. rstrip CHR ''.'' (zone_Name zone) \<noteq> d \<Longrightarrow> scan_zones d zones = None"
  by (induction zones) simp_all

lemma get_hosted_zone_id_listed:
  "list_hosted_zones P (calls self @ [ListHostedZones]) = Inr zones \<Longrightarrow>
   get_hosted_zone_id P self =
     (Inr (scan_zones (domain_name self) zones),
      self\<lparr>calls := calls self @ [ListHostedZones],
           resources := (case scan_zones (domain_name self) zones of
                           None \<Rightarrow> resources self
                         | Some zid \<Rightarrow> (resources self)\<lparr>hosted_zone_id := Some zid\<rparr>)\<rparr>)"
  by (simp add: get_hosted_zone_id_def io_defs split: option.splits)

lemma get_hosted_zone_id_refused:
  "list_hosted_zones P (calls self @ [ListHostedZones]) = Inl (Client e) \<Longrightarrow>
   get_hosted_zone_id P self = (Inr None, self\<lparr>calls := calls self @ [ListHostedZones]\<rparr>)"
  by (simp add: get_hosted_zone_id_def io_defs)

lemma get_hosted_zone_id_other:
  "list_hosted_zones P (calls self @ [ListHostedZones]) = Inl (Other x) \<Longrightarrow>
   get_hosted_zone_id P self =
     (Inl (Other x), self\<lparr>calls := calls self @ [ListHostedZones]\<rparr>)"
  by (simp add: get_hosted_zone_id_def io_defs)

lemma get_hosted_zone_id_cases:
  obtains (listed) zones where "list_hosted_zones P (calls self @ [ListHostedZones]) = Inr zones"
  | (refused) e where "list_hosted_zones P (calls self @ [ListHostedZones]) = Inl (Client e)"
  | (other) x where "list_hosted_zones P (calls self @ [ListHostedZones]) = Inl (Other x)"
proof (cases "list_hosted_zones P (calls self @ [ListHostedZones])")
  case (Inl a)
  then show ?thesis using refused other by (cases a) auto
next
  case (Inr zones)
  then show ?thesis using listed by auto
qed

lemma get_hosted_zone_id_returns:
  "(\<exists>found. fst (get_hosted_zone_id P self) = Inr found) \<or>
   (\<exists>x. list_hosted_zones P (calls self @ [ListHostedZones]) = Inl (Other x) \<and>
        fst (get_hosted_zone_id P self) = Inl (Other x))"
  by (cases rule: get_hosted_zone_id_cases [of P self])
    (simp_all add: get_hosted_zone_id_refused get_hosted_zone_id_listed
      get_hosted_zone_id_other)

lemma issued_get_hosted_zone_id:
  "calls (snd (get_hosted_zone_id P self)) = calls self @ [ListHostedZones]"
  by (cases rule: get_hosted_zone_id_cases [of P self])
    (simp_all add: get_hosted_zone_id_refused get_hosted_zone_id_listed
      get_hosted_zone_id_other)

text \<open>
  C8. Given the list of zones the provider returns, \<open>get_hosted_zone_id\<close> returns
  the identifier of the first zone whose name, with its trailing dots stripped, equals
  \<open>domain_name\<close>, and \<open>None\<close> when no zone matches. It returns unless the listing
  raises an exception that is not a \<open>ClientError\<close>, which leaves the method.
\<close>

theorem get_hosted_zone_id_first_match:
  "((\<exists>found. fst (get_hosted_zone_id P self) = Inr found) \<or>
    (\<exists>x. list_hosted_zones P (calls self @ [ListHostedZones]) = Inl (Other x) \<and>
         fst (get_hosted_zone_id P self) = Inl (Other x))) \<and>
   (list_hosted_zones P (calls self @ [ListHostedZones]) = Inr zones \<longrightarrow>
      fst (get_hosted_zone_id P self) =
        Inr (map_option zone_Id
               (find (\<lambda>zone. rstrip CHR ''.'' (zone_Name zone) = domain_name self) zones))) \<and>
   (list_hosted_zones P (calls self @ [ListHostedZones]) = Inr (before @ z # rest) \<and>
    (\<forall>zone\<in>set before. rstrip CHR ''.'' (zone_Name zone) \<noteq> domain_name self) \<and>
    rstrip CHR ''.'' (zone_Name z) = domain_name self \<longrightarrow>
      fst (get_hosted_zone_id P self) = Inr (Some (zone_Id z))) \<and>
   (list_hosted_zones P (calls self @ [ListHostedZones]) = Inr zones \<and>
    (\<forall>zone\<in>set zones. rstrip CHR ''.'' (zone_Name zone) \<noteq> domain_name self) \<longrightarrow>
      fst (get_hosted_zone_id P self) = Inr None)"
proof (intro conjI impI)
  show "(\<exists>found. fst (get_hosted_zone_id P self) = Inr found) \<or>
    (\<exists>x. list_hosted_zones P (calls self @ [ListHostedZones]) = Inl (Other x) \<and>
         fst (get_hosted_zone_id P self) = Inl (Other x))"
    by (rule get_hosted_zone_id_returns)
next
  assume "list_hosted_zones P (calls self @ [ListHostedZones]) = Inr zones"
  then show "fst (get_hosted_zone_id P self) =
        Inr (map_option zone_Id
               (find (\<lambda>zone. rstrip CHR ''.'' (zone_Name zone) = domain_name self) zones))"
    by (simp add: get_hosted_zone_id_listed scan_zones_find)
next
  assume "list_hosted_zones P (calls self @ [ListHostedZones]) = Inr (before @ z # rest) \<and>
    (\<forall>zone\<in>set before. rstrip CHR ''.'' (zone_Name zone) \<noteq> domain_name self) \<and>
    rstrip CHR ''.'' (zone_Name z) = domain_name self"
  then show "fst (get_hosted_zone_id P self) = Inr (Some (zone_Id z))"
    by (simp add: get_hosted_zone_id_listed scan_zones_first)
next
  assume "list_hosted_zones P (calls self @ [ListHostedZones]) = Inr zones \<and>
    (\<forall>zone\<in>set zones. rstrip CHR ''.'' (zone_Name zone) \<noteq> domain_name self)"
  then show "fst (get_hosted_zone_id P self) = Inr None"
    by (simp add: get_hosted_zone_id_listed scan_zones_none)
qed

lemma rstrip_examples:
  "rstrip CHR ''.'' ''example.org.'' = ''example.org''"
  "rstrip CHR ''.'' ''example.com.'' = ''example.com''"
  by (simp_all add: rstrip_def)

theorem get_hosted_zone_id_first_match_witness:
  "list_hosted_zones ok_provider (calls example_blog @ [ListHostedZones]) =
     Inr ([\<lparr>zone_Id = ''/hostedzone/Z0EXAMPLEORG'', zone_Name = ''example.org.''\<rparr>] @
          \<lparr>zone_Id = ''/hostedzone/Z1EXAMPLECOM'', zone_Name = ''example.com.''\<rparr> #
          [\<lparr>zone_Id = ''/hostedzone/Z2EXAMPLECOM'', zone_Name = ''example.com.''\<rparr>]) \<and>
   fst (get_hosted_zone_id ok_provider example_blog) = Inr (Some ''/hostedzone/Z1EXAMPLECOM'') \<and>
   list_hosted_zones ok_provider (calls (init ''example.net'' ''us-east-1'') @ [ListHostedZones]) =
     Inr example_zones \<and>
   fst (get_hosted_zone_id ok_provider (init ''example.net'' ''us-east-1'')) = Inr None"
  using get_hosted_zone_id_first_match [of ok_provider example_blog _
      "[\<lparr>zone_Id = ''/hostedzone/Z0EXAMPLEORG'', zone_Name = ''example.org.''\<rparr>]"
      "\<lparr>zone_Id = ''/hostedzone/Z1EXAMPLECOM'', zone_Name = ''example.com.''\<rparr>"
      "[\<lparr>zone_Id = ''/hostedzone/Z2EXAMPLECOM'', zone_Name = ''example.com.''\<rparr>]"]
    get_hosted_zone_id_first_match [of ok_provider "init ''example.net'' ''us-east-1''" example_zones]
  by (simp add: example_defs rstrip_examples)

section \<open>The DNS records\<close>

lemma create_route53_records_no_zone:
  assumes "fst (get_hosted_zone_id P self) = Inr None \<or> fst (get_hosted_zone_id P self) = Inr (Some [])"
  shows "create_route53_records P cloudfront self = (Inr False, snd (get_hosted_zone_id P self))"
  using assms
  by (auto simp: create_route53_records_def io_bind_def io_return_def split: prod.splits)

text \<open>
  C10. When the provider's zone list holds no zone matching \<open>domain_name\<close>,
  \<open>create_route53_records\<close> returns \<open>False\<close> and the zone listing is the only
  request it sends: no record is upserted. On every invocation the zone listing is
  the first request sent.
\<close>

theorem no_zone_no_upsert:
  "(list_hosted_zones P (calls self @ [ListHostedZones]) = Inr zones \<and>
    (\<forall>zone\<in>set zones. rstrip CHR ''.'' (zone_Name zone) \<noteq> domain_name self) \<longrightarrow>
      fst (create_route53_records P cloudfront self) = Inr False \<and>
      issued (create_route53_records P cloudfront) self = [ListHostedZones]) \<and>
   take 1 (issued (create_route53_records P cloudfront) self) = [ListHostedZones]"
proof (intro conjI impI)
  assume h: "list_hosted_zones P (calls self @ [ListHostedZones]) = Inr zones \<and>
    (\<forall>zone\<in>set zones. rstrip CHR ''.'' (zone_Name zone) \<noteq> domain_name self)"
  then have none: "fst (get_hosted_zone_id P self) = Inr None"
    by (simp add: get_hosted_zone_id_listed scan_zones_none)
  then have run: "create_route53_records P cloudfront self = (Inr False, snd (get_hosted_zone_id P self))"
    by (simp add: create_route53_records_no_zone)
  from run show "fst (create_route53_records P cloudfront self) = Inr False" by simp
  from run show "issued (create_route53_records P cloudfront) self = [ListHostedZones]"
    by (simp add: issued_def issued_get_hosted_zone_id)
next
  show "take 1 (issued (create_route53_records P cloudfront) self) = [ListHostedZones]"
    using issued_get_hosted_zone_id [of P self]
    by (auto simp: issued_def create_route53_records_def io_defs
        split: prod.splits sum.splits option.splits raised.splits)
qed

theorem no_zone_no_upsert_witness:
  "list_hosted_zones ok_provider (calls (init ''example.net'' ''us-east-1'') @ [ListHostedZones]) =
     Inr example_zones \<and>
   domain_name (init ''example.net'' ''us-east-1'') \<notin>
     set (map (rstrip CHR ''.'') (map zone_Name example_zones)) \<and>
   fst (create_route53_records ok_provider ''d111.cloudfront.net''
          (init ''example.net'' ''us-east-1'')) = Inr False \<and>
   issued (create_route53_records ok_provider ''d111.cloudfront.net'')
     (init ''example.net'' ''us-east-1'') = [ListHostedZones]"
proof -
  have listed: "list_hosted_zones ok_provider
      (calls (init ''example.net'' ''us-east-1'') @ [ListHostedZones]) = Inr example_zones"
    by (simp add: ok_provider_def)
  have unmatched: "\<forall>zone\<in>set example_zones. rstrip CHR ''.'' (zone_Name zone) \<noteq>
      domain_name (init ''example.net'' ''us-east-1'')"
    by (simp add: example_zones_def init_def rstrip_examples)
  then have "domain_name (init ''example.net'' ''us-east-1'') \<notin>
      set (map (rstrip CHR ''.'') (map zone_Name example_zones))"
    by auto
  with listed unmatched
    no_zone_no_upsert [of ok_provider "init ''example.net'' ''us-east-1''" example_zones
      "''d111.cloudfront.net''"]
  show ?thesis by blast
qed

lemma create_route53_records_zone:
  assumes "get_hosted_zone_id P self = (Inr (Some zone), self1)" and "zone \<noteq> []"
    and "calls self1 = calls self @ [ListHostedZones]"
  shows "(fst (create_route53_records P cloudfront self) = Inr True \<longrightarrow>
            issued (create_route53_records P cloudfront) self = route53_requests self zone cloudfront) \<and>
         (\<exists>k. issued (create_route53_records P cloudfront) self =
            take k (route53_requests self zone cloudfront))"
proof -
  let ?c1 = "ChangeResourceRecordSets zone [alias_record (domain_name self) cloudfront]"
  let ?c2 = "ChangeResourceRecordSets zone [alias_record (www_domain self) cloudfront]"
  consider (a) e where "change_resource_record_sets P (calls self1 @ [?c1]) = Inl e"
    | (b) e where "change_resource_record_sets P (calls self1 @ [?c1]) = Inr ()"
        "change_resource_record_sets P (calls self1 @ [?c1, ?c2]) = Inl e"
    | (c) "change_resource_record_sets P (calls self1 @ [?c1]) = Inr ()"
        "change_resource_record_sets P (calls self1 @ [?c1, ?c2]) = Inr ()"
    by (metis old.sum.exhaust old.unit.exhaust)
  then show ?thesis
  proof cases
    case a
    with assms have "fst (create_route53_records P cloudfront self) \<noteq> Inr True"
      and "calls (snd (create_route53_records P cloudfront self)) =
        calls self @ take 2 (route53_requests self zone cloudfront)"
      by (cases e; simp add: create_route53_records_def io_defs route53_requests_def
          numeral_2_eq_2)+
    then have "fst (create_route53_records P cloudfront self) \<noteq> Inr True"
      and "issued (create_route53_records P cloudfront) self =
        take 2 (route53_requests self zone cloudfront)"
      by (simp_all add: issued_def)
    then show ?thesis by auto
  next
    case b
    with assms have "fst (create_route53_records P cloudfront self) \<noteq> Inr True"
      and "calls (snd (create_route53_records P cloudfront self)) =
        calls self @ take 3 (route53_requests self zone cloudfront)"
      by (cases e; simp add: create_route53_records_def io_defs route53_requests_def)+
    then have "fst (create_route53_records P cloudfront self) \<noteq> Inr True"
      and "issued (create_route53_records P cloudfront) self =
        take 3 (route53_requests self zone cloudfront)"
      by (simp_all add: issued_def)
    then show ?thesis by auto
  next
    case c
    with assms have "create_route53_records P cloudfront self =
        (Inr True, self1\<lparr>calls := calls self @ take 3 (route53_requests self zone cloudfront)\<rparr>)"
      by (simp add: create_route53_records_def io_defs route53_requests_def)
    then have "issued (create_route53_records P cloudfront) self =
        take 3 (route53_requests self zone cloudfront)"
      by (simp add: issued_def)
    moreover have "take 3 (route53_requests self zone cloudfront) =
        route53_requests self zone cloudfront"
      by (simp add: route53_requests_def)
    ultimately show ?thesis by metis
  qed
qed

lemma create_route53_records_left:
  assumes "fst (get_hosted_zone_id P self) = Inl x"
  shows "create_route53_records P cloudfront self = (Inl x, snd (get_hosted_zone_id P self))"
  using assms
  by (auto simp: create_route53_records_def io_bind_def split: prod.splits)

lemma create_route53_records_sent:
  "\<exists>zone. (fst (create_route53_records P cloudfront self) = Inr True \<longrightarrow>
            issued (create_route53_records P cloudfront) self =
              route53_requests self zone cloudfront) \<and>
          (\<exists>k. issued (create_route53_records P cloudfront) self =
             take k (route53_requests self zone cloudfront))"
proof -
  obtain outcome self1 where run: "get_hosted_zone_id P self = (outcome, self1)"
    by (cases "get_hosted_zone_id P self")
  have log: "calls self1 = calls self @ [ListHostedZones]"
    using issued_get_hosted_zone_id [of P self] run by simp
  have unsent: ?thesis
    if "fst (create_route53_records P cloudfront self) \<noteq> Inr True"
      and "snd (create_route53_records P cloudfront self) = self1"
  proof -
    from that log have "\<And>zone. issued (create_route53_records P cloudfront) self =
        take 1 (route53_requests self zone cloudfront)"
      by (simp add: issued_def route53_requests_def)
    with that show ?thesis by blast
  qed
  show ?thesis
  proof (cases outcome)
    case (Inl x)
    with run have "create_route53_records P cloudfront self = (Inl x, self1)"
      using create_route53_records_left [of P self x cloudfront] by simp
    then show ?thesis by (intro unsent) simp_all
  next
    case (Inr found)
    show ?thesis
    proof (cases "truthy found")
      case True
      then obtain zone where "found = Some zone" "zone \<noteq> []"
        by (cases found) auto
      with run Inr log create_route53_records_zone [of P self zone self1 cloudfront]
      show ?thesis by blast
    next
      case False
      then have "found = None \<or> found = Some []" by (cases found) auto
      with run Inr have "create_route53_records P cloudfront self = (Inr False, self1)"
        using create_route53_records_no_zone [of P self cloudfront] by auto
      then show ?thesis by (intro unsent) simp_all
    qed
  qed
qed

text \<open>
  C9. When \<open>create_route53_records\<close> returns \<open>True\<close>, it has sent, after the zone
  listing, exactly two requests to the zone it found: an upsert of the record named
  \<open>domain_name\<close> and an upsert of the record named \<open>www_domain\<close>. What it sends is
  in every case a prefix of these three requests. Each record is of type \<open>A\<close>, its
  alias target is the domain passed in and the alias target's hosted zone is the
  constant \<open>Z2FDTNDATAQYW2\<close>.
\<close>

theorem alias_records_published:
  "(fst (create_route53_records P cloudfront self) = Inr True \<longrightarrow>
      (\<exists>zone. issued (create_route53_records P cloudfront) self =
         [ListHostedZones,
          ChangeResourceRecordSets zone [alias_record (domain_name self) cloudfront],
          ChangeResourceRecordSets zone [alias_record (www_domain self) cloudfront]])) \<and>
   (\<exists>zone k. issued (create_route53_records P cloudfront) self =
      take k [ListHostedZones,
              ChangeResourceRecordSets zone [alias_record (domain_name self) cloudfront],
              ChangeResourceRecordSets zone [alias_record (www_domain self) cloudfront]]) \<and>
   alias_record name cloudfront =
     \<lparr>change_Action = ''UPSERT'',
      ResourceRecordSet =
        \<lparr>record_Name = name, record_Type = ''A'',
         AliasTarget = \<lparr>DNSName = cloudfront, EvaluateTargetHealth = False,
                        alias_HostedZoneId = ''Z2FDTNDATAQYW2''\<rparr>\<rparr>\<rparr>"
  using create_route53_records_sent [of P cloudfront self]
  unfolding route53_requests_def alias_record_def by blast

theorem alias_records_published_witness:
  "fst (create_route53_records ok_provider ''d111.cloudfront.net'' example_blog) = Inr True \<and>
   (\<exists>zone. issued (create_route53_records ok_provider ''d111.cloudfront.net'') example_blog =
      [ListHostedZones,
       ChangeResourceRecordSets zone
         [alias_record (domain_name example_blog) ''d111.cloudfront.net''],
       ChangeResourceRecordSets zone
         [alias_record (www_domain example_blog) ''d111.cloudfront.net'']])"
proof -
  have "fst (create_route53_records ok_provider ''d111.cloudfront.net'' example_blog) = Inr True"
    by (simp add: create_route53_records_def get_hosted_zone_id_def io_defs example_defs
        rstrip_examples)
  with alias_records_published [of ok_provider "''d111.cloudfront.net''" example_blog]
  show ?thesis by blast
qed

section \<open>The status query\<close>

lemma check_bucket_handled:
  "handled (head_bucket P (bucket_probe_log self)) \<Longrightarrow>
   check_bucket P self =
     (Inr (case head_bucket P (bucket_probe_log self) of
             Inl err \<Rightarrow> ''missing'' | Inr u \<Rightarrow> ''exists''),
      self\<lparr>calls := bucket_probe_log self\<rparr>)"
  by (auto simp: check_bucket_def bucket_probe_log_def io_defs split: sum.splits raised.splits)

lemma check_bucket_other:
  "head_bucket P (bucket_probe_log self) = Inl (Other x) \<Longrightarrow>
   check_bucket P self = (Inl (Other x), self\<lparr>calls := bucket_probe_log self\<rparr>)"
  by (simp add: check_bucket_def bucket_probe_log_def io_defs)

lemma check_certificate_absent:
  "\<not> truthy (certificate_arn (resources self)) \<Longrightarrow> check_certificate P self = (Inr None, self)"
  by (cases "certificate_arn (resources self)") (simp_all add: check_certificate_def io_defs)

lemma check_certificate_handled:
  "truthy (certificate_arn (resources self)) \<Longrightarrow>
   handled (describe_certificate P
              (calls self @ [DescribeCertificate (the (certificate_arn (resources self)))])) \<Longrightarrow>
   check_certificate P self =
     (Inr (Some (case describe_certificate P
                   (calls self @ [DescribeCertificate (the (certificate_arn (resources self)))]) of
                   Inl err \<Rightarrow> ''error'' | Inr st \<Rightarrow> st)),
      self\<lparr>calls := calls self @ [DescribeCertificate (the (certificate_arn (resources self)))]\<rparr>)"
  by (cases "certificate_arn (resources self)")
    (auto simp: check_certificate_def io_defs split: sum.splits raised.splits)

lemma check_certificate_other:
  "truthy (certificate_arn (resources self)) \<Longrightarrow>
   describe_certificate P
     (calls self @ [DescribeCertificate (the (certificate_arn (resources self)))]) =
     Inl (Other x) \<Longrightarrow>
   fst (check_certificate P self) = Inl (Other x)"
  by (cases "certificate_arn (resources self)") (simp_all add: check_certificate_def io_defs)

lemma check_distribution_absent:
  "\<not> truthy (distribution_id (resources self)) \<Longrightarrow> check_distribution P self = (Inr None, self)"
  by (cases "distribution_id (resources self)") (simp_all add: check_distribution_def io_defs)

lemma check_distribution_handled:
  "truthy (distribution_id (resources self)) \<Longrightarrow>
   handled (get_distribution P
              (calls self @ [GetDistribution (the (distribution_id (resources self)))])) \<Longrightarrow>
   check_distribution P self =
     (Inr (Some (case get_distribution P
                   (calls self @ [GetDistribution (the (distribution_id (resources self)))]) of
                   Inl err \<Rightarrow> ''error'' | Inr st \<Rightarrow> st)),
      self\<lparr>calls := calls self @ [GetDistribution (the (distribution_id (resources self)))]\<rparr>)"
  by (cases "distribution_id (resources self)")
    (auto simp: check_distribution_def io_defs split: sum.splits raised.splits)

lemma check_distribution_other:
  "truthy (distribution_id (resources self)) \<Longrightarrow>
   get_distribution P
     (calls self @ [GetDistribution (the (distribution_id (resources self)))]) =
     Inl (Other x) \<Longrightarrow>
   fst (check_distribution P self) = Inl (Other x)"
  by (cases "distribution_id (resources self)") (simp_all add: check_distribution_def io_defs)

lemma get_status_snapshot:
  assumes "status_queries_handled P self"
  shows "fst (get_status P self) =
     Inr \<lparr>domain = domain_name self,
          status_resources = resources self,
          s3_bucket =
            (case head_bucket P (bucket_probe_log self) of
               Inl err \<Rightarrow> ''missing'' | Inr u \<Rightarrow> ''exists''),
          certificate_status =
            (if truthy (certificate_arn (resources self)) then
               Some (case describe_certificate P (certificate_query_log self) of
                       Inl err \<Rightarrow> ''error'' | Inr st \<Rightarrow> st)
             else None),
          distribution_status =
            (if truthy (distribution_id (resources self)) then
               Some (case get_distribution P (distribution_query_log self) of
                       Inl err \<Rightarrow> ''error'' | Inr st \<Rightarrow> st)
             else None)\<rparr>"
proof -
  from assms have head: "handled (head_bucket P (bucket_probe_log self))"
    by (simp add: status_queries_handled_def)
  let ?self1 = "self\<lparr>calls := bucket_probe_log self\<rparr>"
  show ?thesis
  proof (cases "truthy (certificate_arn (resources self))")
    case cert: True
    with assms have c: "handled (describe_certificate P
        (calls ?self1 @ [DescribeCertificate (the (certificate_arn (resources ?self1)))]))"
      by (simp add: status_queries_handled_def certificate_query_log_def)
    let ?self2 = "?self1\<lparr>calls := certificate_query_log self\<rparr>"
    show ?thesis
    proof (cases "truthy (distribution_id (resources self))")
      case True
      with assms cert have "handled (get_distribution P
          (calls ?self2 @ [GetDistribution (the (distribution_id (resources ?self2)))]))"
        by (simp add: status_queries_handled_def distribution_query_log_def)
      with head cert c True show ?thesis
        by (simp add: get_status_def io_bind_def io_return_def check_bucket_handled
            check_certificate_handled check_distribution_handled certificate_query_log_def
            distribution_query_log_def)
    next
      case False
      with head cert c show ?thesis
        by (simp add: get_status_def io_bind_def io_return_def check_bucket_handled
            check_certificate_handled check_distribution_absent certificate_query_log_def)
    qed
  next
    case nocert: False
    show ?thesis
    proof (cases "truthy (distribution_id (resources self))")
      case True
      with assms nocert have "handled (get_distribution P
          (calls ?self1 @ [GetDistribution (the (distribution_id (resources ?self1)))]))"
        by (simp add: status_queries_handled_def distribution_query_log_def)
      with head nocert True show ?thesis
        by (simp add: get_status_def io_bind_def io_return_def check_bucket_handled
            check_certificate_absent check_distribution_handled distribution_query_log_def)
    next
      case False
      with head nocert show ?thesis
        by (simp add: get_status_def io_bind_def io_return_def check_bucket_handled
            check_certificate_absent check_distribution_absent)
    qed
  qed
qed

lemma get_status_left:
  assumes "\<not> status_queries_handled P self"
  shows "\<exists>x. fst (get_status P self) = Inl (Other x)"
proof -
  have unhandled: "\<And>r :: raised + 'b. \<not> handled r \<Longrightarrow> \<exists>x. r = Inl (Other x)"
    by (metis handled.elims(3))
  let ?self1 = "self\<lparr>calls := bucket_probe_log self\<rparr>"
  show ?thesis
  proof (cases "handled (head_bucket P (bucket_probe_log self))")
    case False
    then obtain x where "head_bucket P (bucket_probe_log self) = Inl (Other x)"
      using unhandled by blast
    then show ?thesis
      by (simp add: get_status_def io_bind_def check_bucket_other)
  next
    case head: True
    show ?thesis
    proof (cases "truthy (certificate_arn (resources self)) \<and>
        \<not> handled (describe_certificate P (certificate_query_log self))")
      case True
      then obtain x where "describe_certificate P (certificate_query_log self) = Inl (Other x)"
        using unhandled by blast
      with True have "fst (check_certificate P ?self1) = Inl (Other x)"
        by (intro check_certificate_other) (simp_all add: certificate_query_log_def)
      with head show ?thesis
        by (auto simp: get_status_def io_bind_def check_bucket_handled split: prod.splits)
    next
      case False
      with assms head have dist: "truthy (distribution_id (resources self))"
        and bad: "\<not> handled (get_distribution P (distribution_query_log self))"
        by (auto simp: status_queries_handled_def split: if_splits)
      then obtain x where x: "get_distribution P (distribution_query_log self) = Inl (Other x)"
        using unhandled by blast
      show ?thesis
      proof (cases "truthy (certificate_arn (resources self))")
        case cert: True
        with False have c: "handled (describe_certificate P
            (calls ?self1 @ [DescribeCertificate (the (certificate_arn (resources ?self1)))]))"
          by (simp add: certificate_query_log_def)
        let ?self2 = "?self1\<lparr>calls := certificate_query_log self\<rparr>"
        from dist x cert have "fst (check_distribution P ?self2) = Inl (Other x)"
          by (intro check_distribution_other) (simp_all add: distribution_query_log_def)
        with head cert c show ?thesis
          by (auto simp: get_status_def io_bind_def check_bucket_handled
              check_certificate_handled certificate_query_log_def split: prod.splits)
      next
        case nocert: False
        from dist x nocert have "fst (check_distribution P ?self1) = Inl (Other x)"
          by (intro check_distribution_other) (simp_all add: distribution_query_log_def)
        with head nocert show ?thesis
          by (auto simp: get_status_def io_bind_def check_bucket_handled
              check_certificate_absent split: prod.splits)
      qed
    qed
  qed
qed

lemma deployed_blog_eq:
  "deployed_blog =
     example_blog
       \<lparr>resources :=
          \<lparr>ledger_bucket_name = ''example.com'',
           certificate_arn = Some ''arn:aws:acm:us-east-1:111122223333:certificate/new'',
           distribution_id = Some ''E2DIST'', hosted_zone_id = None,
           cloudfront_domain = Some ''d111.cloudfront.net''\<rparr>,
        calls := calls deployed_blog\<rparr>"
  by (simp add: deployed_blog_def create_cloudfront_distribution_def
      update_s3_bucket_policy_def request_ssl_certificate_def io_defs example_defs)

lemma deployed_ledger:
  "truthy (certificate_arn (resources deployed_blog))"
  "truthy (distribution_id (resources deployed_blog))"
  "domain_name deployed_blog = ''example.com''"
  by (subst deployed_blog_eq, simp add: example_blog_def init_def)+

lemma example_ledger:
  "\<not> truthy (certificate_arn (resources example_blog))"
  "\<not> truthy (distribution_id (resources example_blog))"
  "domain_name example_blog = ''example.com''"
  by (simp_all add: example_blog_def init_def)

lemma denied_probe:
  "head_bucket denying_provider (bucket_probe_log example_blog) = Inl (Client access_denied)"
  by (simp add: denying_provider_def)

lemma example_queries_handled:
  "status_queries_handled no_certificate_status_provider deployed_blog"
  "status_queries_handled no_distribution_status_provider deployed_blog"
  "\<not> status_queries_handled no_credentials_provider example_blog"
  by (simp_all add: status_queries_handled_def deployed_ledger ok_provider_def
      no_certificate_status_provider_def no_distribution_status_provider_def
      no_credentials_provider_def)

lemma get_status_without_credentials:
  "fst (get_status no_credentials_provider example_blog) = Inl (Other ''NoCredentialsError'')"
  by (simp add: get_status_def io_bind_def check_bucket_other bucket_probe_log_def
      no_credentials_provider_def)

lemma get_status_empty_domain:
  "fst (get_status validating_provider (init [] ''us-east-1'')) =
     Inl (Other ''ParamValidationError'')"
  by (simp add: get_status_def io_bind_def check_bucket_other bucket_probe_log_def
      validating_provider_def init_def)

text \<open>
  C7, as the code has it. \<open>get_status\<close> returns a snapshot exactly when every query
  it makes returns or raises a \<open>ClientError\<close>; an exception of another class is not
  caught and leaves the method. With neither a certificate nor a distribution in the
  ledger and a bucket probe that raises a \<open>ClientError\<close>, the snapshot reports the
  bucket as \<open>missing\<close> and holds neither a certificate status nor a distribution
  status. When the ledger holds a certificate (a distribution) and the query about it
  raises a \<open>ClientError\<close>, that field is \<open>error\<close> and the other fields are what their
  own queries give.
\<close>

theorem get_status_degrades:
  "(status_queries_handled P self \<longleftrightarrow>
      (\<exists>snapshot. fst (get_status P self) = Inr snapshot)) \<and>
   (\<not> status_queries_handled P self \<longrightarrow>
      (\<exists>x. fst (get_status P self) = Inl (Other x))) \<and>
   (\<not> truthy (certificate_arn (resources self)) \<and>
    \<not> truthy (distribution_id (resources self)) \<and>
    head_bucket P (bucket_probe_log self) = Inl (Client e) \<longrightarrow>
      fst (get_status P self) =
        Inr \<lparr>domain = domain_name self, status_resources = resources self,
             s3_bucket = ''missing'', certificate_status = None,
             distribution_status = None\<rparr>) \<and>
   (status_queries_handled P self \<and>
    truthy (certificate_arn (resources self)) \<and>
    describe_certificate P (certificate_query_log self) = Inl (Client e) \<longrightarrow>
      fst (get_status P self) =
        Inr \<lparr>domain = domain_name self, status_resources = resources self,
             s3_bucket =
               (case head_bucket P (bucket_probe_log self) of
                  Inl err \<Rightarrow> ''missing'' | Inr u \<Rightarrow> ''exists''),
             certificate_status = Some ''error'',
             distribution_status =
               (if truthy (distribution_id (resources self)) then
                  Some (case get_distribution P (distribution_query_log self) of
                          Inl err \<Rightarrow> ''error'' | Inr st \<Rightarrow> st)
                else None)\<rparr>) \<and>
   (status_queries_handled P self \<and>
    truthy (distribution_id (resources self)) \<and>
    get_distribution P (distribution_query_log self) = Inl (Client e) \<longrightarrow>
      fst (get_status P self) =
        Inr \<lparr>domain = domain_name self, status_resources = resources self,
             s3_bucket =
               (case head_bucket P (bucket_probe_log self) of
                  Inl err \<Rightarrow> ''missing'' | Inr u \<Rightarrow> ''exists''),
             certificate_status =
               (if truthy (certificate_arn (resources self)) then
                  Some (case describe_certificate P (certificate_query_log self) of
                          Inl err \<Rightarrow> ''error'' | Inr st \<Rightarrow> st)
                else None),
             distribution_status = Some ''error''\<rparr>)"
proof (intro conjI impI)
  show "status_queries_handled P self \<longleftrightarrow>
      (\<exists>snapshot. fst (get_status P self) = Inr snapshot)"
  proof
    assume "status_queries_handled P self"
    then show "\<exists>snapshot. fst (get_status P self) = Inr snapshot"
      using get_status_snapshot [of P self] by simp
  next
    assume "\<exists>snapshot. fst (get_status P self) = Inr snapshot"
    then show "status_queries_handled P self"
      using get_status_left [of P self] by fastforce
  qed
next
  assume "\<not> status_queries_handled P self"
  then show "\<exists>x. fst (get_status P self) = Inl (Other x)"
    by (rule get_status_left)
next
  assume h: "\<not> truthy (certificate_arn (resources self)) \<and>
    \<not> truthy (distribution_id (resources self)) \<and>
    head_bucket P (bucket_probe_log self) = Inl (Client e)"
  then have "status_queries_handled P self"
    by (simp add: status_queries_handled_def)
  from get_status_snapshot [OF this] h
  show "fst (get_status P self) =
        Inr \<lparr>domain = domain_name self, status_resources = resources self,
             s3_bucket = ''missing'', certificate_status = None,
             distribution_status = None\<rparr>"
    by simp
next
  assume h: "status_queries_handled P self \<and>
    truthy (certificate_arn (resources self)) \<and>
    describe_certificate P (certificate_query_log self) = Inl (Client e)"
  then have "status_queries_handled P self" by simp
  from get_status_snapshot [OF this] h
  show "fst (get_status P self) =
        Inr \<lparr>domain = domain_name self, status_resources = resources self,
             s3_bucket =
               (case head_bucket P (bucket_probe_log self) of
                  Inl err \<Rightarrow> ''missing'' | Inr u \<Rightarrow> ''exists''),
             certificate_status = Some ''error'',
             distribution_status =
               (if truthy (distribution_id (resources self)) then
                  Some (case get_distribution P (distribution_query_log self) of
                          Inl err \<Rightarrow> ''error'' | Inr st \<Rightarrow> st)
                else None)\<rparr>"
    by simp
next
  assume h: "status_queries_handled P self \<and>
    truthy (distribution_id (resources self)) \<and>
    get_distribution P (distribution_query_log self) = Inl (Client e)"
  then have "status_queries_handled P self" by simp
  from get_status_snapshot [OF this] h
  show "fst (get_status P self) =
        Inr \<lparr>domain = domain_name self, status_resources = resources self,
             s3_bucket =
               (case head_bucket P (bucket_probe_log self) of
                  Inl err \<Rightarrow> ''missing'' | Inr u \<Rightarrow> ''exists''),
             certificate_status =
               (if truthy (certificate_arn (resources self)) then
                  Some (case describe_certificate P (certificate_query_log self) of
                          Inl err \<Rightarrow> ''error'' | Inr st \<Rightarrow> st)
                else None),
             distribution_status = Some ''error''\<rparr>"
    by simp
qed

theorem get_status_degrades_witness:
  "(\<not> truthy (certificate_arn (resources example_blog)) \<and>
    \<not> truthy (distribution_id (resources example_blog)) \<and>
    head_bucket denying_provider (bucket_probe_log example_blog) = Inl (Client access_denied) \<and>
    fst (get_status denying_provider example_blog) =
      Inr \<lparr>domain = ''example.com'', status_resources = resources example_blog,
           s3_bucket = ''missing'', certificate_status = None,
           distribution_status = None\<rparr>) \<and>
   (status_queries_handled no_certificate_status_provider deployed_blog \<and>
    truthy (certificate_arn (resources deployed_blog)) \<and>
    describe_certificate no_certificate_status_provider (certificate_query_log deployed_blog) =
      Inl (Client access_denied) \<and>
    fst (get_status no_certificate_status_provider deployed_blog) =
      Inr \<lparr>domain = ''example.com'', status_resources = resources deployed_blog,
           s3_bucket = ''exists'', certificate_status = Some ''error'',
           distribution_status = Some ''InProgress''\<rparr>) \<and>
   (status_queries_handled no_distribution_status_provider deployed_blog \<and>
    truthy (distribution_id (resources deployed_blog)) \<and>
    get_distribution no_distribution_status_provider (distribution_query_log deployed_blog) =
      Inl (Client access_denied) \<and>
    fst (get_status no_distribution_status_provider deployed_blog) =
      Inr \<lparr>domain = ''example.com'', status_resources = resources deployed_blog,
           s3_bucket = ''exists'', certificate_status = Some ''PENDING_VALIDATION'',
           distribution_status = Some ''error''\<rparr>) \<and>
   (\<not> status_queries_handled no_credentials_provider example_blog \<and>
    fst (get_status no_credentials_provider example_blog) = Inl (Other ''NoCredentialsError''))"
proof -
  have refused_certificate:
    "describe_certificate no_certificate_status_provider (certificate_query_log deployed_blog) =
      Inl (Client access_denied)"
    by (simp add: no_certificate_status_provider_def)
  have refused_distribution:
    "get_distribution no_distribution_status_provider (distribution_query_log deployed_blog) =
      Inl (Client access_denied)"
    by (simp add: no_distribution_status_provider_def)
  have missing: "fst (get_status denying_provider example_blog) =
      Inr \<lparr>domain = ''example.com'', status_resources = resources example_blog,
           s3_bucket = ''missing'', certificate_status = None,
           distribution_status = None\<rparr>"
    using get_status_degrades [of denying_provider example_blog access_denied,
        THEN conjunct2, THEN conjunct2, THEN conjunct1]
    by (simp add: example_ledger denied_probe)
  have no_certificate: "fst (get_status no_certificate_status_provider deployed_blog) =
      Inr \<lparr>domain = ''example.com'', status_resources = resources deployed_blog,
           s3_bucket = ''exists'', certificate_status = Some ''error'',
           distribution_status = Some ''InProgress''\<rparr>"
    using get_status_degrades [of no_certificate_status_provider deployed_blog access_denied,
        THEN conjunct2, THEN conjunct2, THEN conjunct2, THEN conjunct1]
    by (simp add: deployed_ledger example_queries_handled refused_certificate)
      (simp add: no_certificate_status_provider_def ok_provider_def)
  have no_distribution: "fst (get_status no_distribution_status_provider deployed_blog) =
      Inr \<lparr>domain = ''example.com'', status_resources = resources deployed_blog,
           s3_bucket = ''exists'', certificate_status = Some ''PENDING_VALIDATION'',
           distribution_status = Some ''error''\<rparr>"
    using get_status_degrades [of no_distribution_status_provider deployed_blog access_denied,
        THEN conjunct2, THEN conjunct2, THEN conjunct2, THEN conjunct2]
    by (simp add: deployed_ledger example_queries_handled refused_distribution)
      (simp add: no_distribution_status_provider_def ok_provider_def)
  show ?thesis
    by (simp add: example_ledger deployed_ledger denied_probe example_queries_handled
        refused_certificate refused_distribution missing no_certificate no_distribution
        get_status_without_credentials)
qed

text \<open>
  C7, as stated, fails: \<open>get_status\<close> does not always return a snapshot. For the
  domain \<open>''\<close> the client refuses the empty bucket name with
  \<open>ParamValidationError\<close>, and without credentials every call raises
  \<open>NoCredentialsError\<close>; neither is a \<open>ClientError\<close>, and each leaves the method.
\<close>

theorem get_status_aborts_counterexample:
  "fst (get_status validating_provider (init [] ''us-east-1'')) =
     Inl (Other ''ParamValidationError'') \<and>
   fst (get_status no_credentials_provider example_blog) =
     Inl (Other ''NoCredentialsError'')"
  by (simp add: get_status_empty_domain get_status_without_credentials)

section \<open>The distribution\<close>

lemma bucket_policy_attributes:
  "bucket_policy (self\<lparr>calls := t, resources := r\<rparr>) account distribution =
     bucket_policy self account distribution"
  by (simp add: bucket_policy_def)

lemma create_cloudfront_distribution_cases:
  "issued (create_cloudfront_distribution P now certificate) self =
     [CreateOriginAccessControl (oac_config self)] \<or>
   (\<exists>oac. issued (create_cloudfront_distribution P now certificate) self =
      [CreateOriginAccessControl (oac_config self),
       CreateDistribution (distribution_config self now certificate oac)]) \<or>
   (\<exists>oac. issued (create_cloudfront_distribution P now certificate) self =
      [CreateOriginAccessControl (oac_config self),
       CreateDistribution (distribution_config self now certificate oac),
       GetCallerIdentity]) \<or>
   (\<exists>oac account distribution.
      issued (create_cloudfront_distribution P now certificate) self =
        [CreateOriginAccessControl (oac_config self),
         CreateDistribution (distribution_config self now certificate oac),
         GetCallerIdentity,
         PutBucketPolicy (bucket_name self) (bucket_policy self account distribution)] \<and>
      distribution_id (resources (snd (create_cloudfront_distribution P now certificate self))) =
        Some distribution)"
proof (cases "create_origin_access_control P (calls self @ [CreateOriginAccessControl (oac_config self)])")
  case (Inl e)
  then show ?thesis
    by (cases e) (simp_all add: issued_def create_cloudfront_distribution_def io_defs)
next
  case oac: (Inr oac)
  let ?t2 = "calls self @ [CreateOriginAccessControl (oac_config self),
       CreateDistribution (distribution_config self now certificate oac)]"
  show ?thesis
  proof (cases "create_distribution P ?t2")
    case (Inl e)
    with oac show ?thesis
      by (cases e) (auto simp: issued_def create_cloudfront_distribution_def io_defs)
  next
    case dist: (Inr created)
    obtain distribution dom where created: "created = (distribution, dom)"
      by (cases created)
    show ?thesis
    proof (cases "get_caller_identity P (?t2 @ [GetCallerIdentity])")
      case (Inl e)
      with oac dist created show ?thesis
        by (cases e) (auto simp: issued_def create_cloudfront_distribution_def
            update_s3_bucket_policy_def io_defs)
    next
      case (Inr account)
      with oac dist created show ?thesis
        by (auto simp: issued_def create_cloudfront_distribution_def
            update_s3_bucket_policy_def bucket_policy_attributes io_defs
            split: sum.splits raised.splits)
    qed
  qed
qed

lemma create_distribution_sent:
  assumes "CreateDistribution cfg \<in> set (issued (create_cloudfront_distribution P now certificate) self)"
  shows "\<exists>oac. cfg = distribution_config self now certificate oac"
  using create_cloudfront_distribution_cases [of P now certificate self] assms
  by auto

text \<open>
  C3. For every apex domain \<open>D\<close>, the distribution configuration that
  \<open>create_cloudfront_distribution\<close> builds, and every one it submits, has the
  aliases \<open>[D, "www." + D]\<close>, the default root object \<open>index.html\<close>, the viewer
  protocol policy \<open>redirect-to-https\<close>, the given certificate with \<open>sni-only\<close>
  delivery and minimum protocol version \<open>TLSv1.2_2021\<close>, and the price class
  \<open>PriceClass_100\<close> (North America and Europe).
\<close>

theorem distribution_config_contents:
  "(cfg = distribution_config ((init D region)\<lparr>resources := r, calls := t\<rparr>) now certificate oac \<or>
    CreateDistribution cfg \<in>
      set (issued (create_cloudfront_distribution P now certificate)
             ((init D region)\<lparr>resources := r, calls := t\<rparr>))) \<longrightarrow>
   aliases_Items (Aliases cfg) = [D, ''www.'' @ D] \<and>
   aliases_Quantity (Aliases cfg) = 2 \<and>
   DefaultRootObject cfg = ''index.html'' \<and>
   ViewerProtocolPolicy (DefaultCacheBehavior cfg) = ''redirect-to-https'' \<and>
   ViewerCertificate cfg =
     \<lparr>ACMCertificateArn = certificate, SSLSupportMethod = ''sni-only'',
      MinimumProtocolVersion = ''TLSv1.2_2021''\<rparr> \<and>
   PriceClass cfg = ''PriceClass_100''"
proof
  let ?self = "(init D region)\<lparr>resources := r, calls := t\<rparr>"
  assume "cfg = distribution_config ?self now certificate oac \<or>
    CreateDistribution cfg \<in> set (issued (create_cloudfront_distribution P now certificate) ?self)"
  then obtain oac' where "cfg = distribution_config ?self now certificate oac'"
    using create_distribution_sent [of cfg P now certificate ?self] by blast
  then show "aliases_Items (Aliases cfg) = [D, ''www.'' @ D] \<and>
   aliases_Quantity (Aliases cfg) = 2 \<and>
   DefaultRootObject cfg = ''index.html'' \<and>
   ViewerProtocolPolicy (DefaultCacheBehavior cfg) = ''redirect-to-https'' \<and>
   ViewerCertificate cfg =
     \<lparr>ACMCertificateArn = certificate, SSLSupportMethod = ''sni-only'',
      MinimumProtocolVersion = ''TLSv1.2_2021''\<rparr> \<and>
   PriceClass cfg = ''PriceClass_100''"
    by (simp add: distribution_config_def init_def)
qed

lemma example_blog_init:
  "example_blog = (init ''example.com'' ''us-east-1'')\<lparr>resources := resources example_blog, calls := []\<rparr>"
  by (simp add: example_blog_def init_def)

lemma ok_run_issued:
  "issued (create_cloudfront_distribution ok_provider now certificate) example_blog =
     [CreateOriginAccessControl (oac_config example_blog),
      CreateDistribution (distribution_config example_blog now certificate ''E1OAC''),
      GetCallerIdentity,
      PutBucketPolicy ''example.com'' (bucket_policy example_blog ''111122223333'' ''E2DIST'')]"
  by (simp add: issued_def create_cloudfront_distribution_def update_s3_bucket_policy_def
      bucket_policy_def io_defs ok_provider_def)
    (simp add: example_blog_def init_def)

theorem distribution_config_contents_witness:
  "CreateDistribution (distribution_config example_blog 1700000000 ''arn:aws:acm:us-east-1:111122223333:certificate/new'' ''E1OAC'') \<in>
     set (issued (create_cloudfront_distribution ok_provider 1700000000
                    ''arn:aws:acm:us-east-1:111122223333:certificate/new'')
            ((init ''example.com'' ''us-east-1'')\<lparr>resources := resources example_blog, calls := []\<rparr>)) \<and>
   aliases_Items (Aliases (distribution_config example_blog 1700000000
      ''arn:aws:acm:us-east-1:111122223333:certificate/new'' ''E1OAC'')) =
     [''example.com'', ''www.example.com''] \<and>
   DefaultRootObject (distribution_config example_blog 1700000000
      ''arn:aws:acm:us-east-1:111122223333:certificate/new'' ''E1OAC'') = ''index.html'' \<and>
   ViewerProtocolPolicy (DefaultCacheBehavior (distribution_config example_blog 1700000000
      ''arn:aws:acm:us-east-1:111122223333:certificate/new'' ''E1OAC'')) = ''redirect-to-https''"
proof -
  have sent: "CreateDistribution (distribution_config example_blog 1700000000 ''arn:aws:acm:us-east-1:111122223333:certificate/new'' ''E1OAC'') \<in>
     set (issued (create_cloudfront_distribution ok_provider 1700000000
                    ''arn:aws:acm:us-east-1:111122223333:certificate/new'')
            ((init ''example.com'' ''us-east-1'')\<lparr>resources := resources example_blog, calls := []\<rparr>))"
    unfolding example_blog_init [symmetric] by (simp add: ok_run_issued)
  with distribution_config_contents [where
      cfg = "distribution_config example_blog 1700000000 ''arn:aws:acm:us-east-1:111122223333:certificate/new'' ''E1OAC''"
      and D = "''example.com''" and region = "''us-east-1''" and r = "resources example_blog"
      and t = "[]" and now = 1700000000
      and certificate = "''arn:aws:acm:us-east-1:111122223333:certificate/new''"
      and P = ok_provider]
  show ?thesis by simp
qed

section \<open>The certificate request\<close>

text \<open>
  C2, as the code has it. For every apex domain \<open>D\<close>, \<open>request_ssl_certificate\<close>
  sends exactly one request, a certificate request with DNS validation whose primary
  domain name is \<open>D\<close> and whose list of subject alternative names is
  \<open>["www." + D]\<close>: the names the request covers, the primary name followed by the
  alternative names, are \<open>D\<close> and \<open>"www." + D\<close>.
\<close>

theorem certificate_request_names:
  "issued (request_ssl_certificate P) ((init D region)\<lparr>resources := r, calls := t\<rparr>) =
     [RequestCertificate
        \<lparr>DomainName = D,
         SubjectAlternativeNames = [''www.'' @ D],
         ValidationMethod = ''DNS'',
         Tags = [(''Name'', D @ '' Blog Certificate''), (''Purpose'', ''Blog'')]\<rparr>]"
  by (simp add: issued_def request_ssl_certificate_def io_defs init_def
      split: sum.splits raised.splits)

text \<open>
  C2, as stated, fails for \<open>example.com\<close>: the subject alternative names requested are
  \<open>["www.example.com"]\<close>, not \<open>["example.com", "www.example.com"]\<close>.
\<close>

theorem requested_sans_counterexample:
  "issued (request_ssl_certificate ok_provider) example_blog =
     [RequestCertificate
        \<lparr>DomainName = ''example.com'',
         SubjectAlternativeNames = [''www.example.com''],
         ValidationMethod = ''DNS'',
         Tags = [(''Name'', ''example.com Blog Certificate''), (''Purpose'', ''Blog'')]\<rparr>] \<and>
   [''www.example.com''] \<noteq> [''example.com'', ''www.example.com'']"
  by (simp add: issued_def request_ssl_certificate_def io_defs example_blog_def init_def
      ok_provider_def)

section \<open>The decimal rendering is injective\<close>



lemma str_nat_nonempty [simp]: "str_nat n \<noteq> []" "[] \<noteq> str_nat n"
  by (subst str_nat.simps, simp)+




section \<open>Running the distribution stage twice\<close>







section \<open>Where the identifiers of later stages come from\<close>

lemma bucket_policy_sent:
  assumes "PutBucketPolicy bucket policy \<in>
             set (issued (create_cloudfront_distribution P now certificate) self)"
  shows "\<exists>account distribution.
           distribution_id (resources (snd (create_cloudfront_distribution P now certificate self))) =
             Some distribution \<and>
           policy = bucket_policy self account distribution"
  using create_cloudfront_distribution_cases [of P now certificate self] assms
  by auto

lemma record_change_sent:
  assumes "ChangeResourceRecordSets zone changes \<in>
             set (issued (create_route53_records P cloudfront) self)"
  shows "changes = [alias_record (domain_name self) cloudfront] \<or>
         changes = [alias_record (www_domain self) cloudfront]"
proof -
  from create_route53_records_sent [of P cloudfront self] obtain z k
    where "issued (create_route53_records P cloudfront) self =
             take k (route53_requests self z cloudfront)"
    by blast
  with assms have "ChangeResourceRecordSets zone changes \<in>
      set (route53_requests self z cloudfront)"
    by (auto dest: in_set_takeD)
  then show ?thesis by (auto simp: route53_requests_def)
qed

lemma certified_blog_eq:
  "certified_blog =
     example_blog
       \<lparr>resources :=
          \<lparr>ledger_bucket_name = ''example.com'',
           certificate_arn = Some ''arn:aws:acm:us-east-1:111122223333:certificate/new'',
           distribution_id = None, hosted_zone_id = None, cloudfront_domain = None\<rparr>,
        calls := calls certified_blog\<rparr>"
  by (simp add: certified_blog_def request_ssl_certificate_def io_defs example_defs)

lemma certified_run_issued:
  "issued (create_cloudfront_distribution ok_provider now certificate) certified_blog =
     [CreateOriginAccessControl (oac_config certified_blog),
      CreateDistribution (distribution_config certified_blog now certificate ''E1OAC''),
      GetCallerIdentity,
      PutBucketPolicy ''example.com'' (bucket_policy certified_blog ''111122223333'' ''E2DIST'')]"
  by (simp add: issued_def create_cloudfront_distribution_def update_s3_bucket_policy_def
      bucket_policy_def io_defs ok_provider_def)
    (subst certified_blog_eq, simp add: example_blog_def init_def)

lemma deployed_records_issued:
  "issued (create_route53_records ok_provider cloudfront) deployed_blog =
     route53_requests deployed_blog ''/hostedzone/Z1EXAMPLECOM'' cloudfront"
  by (simp add: issued_def create_route53_records_def get_hosted_zone_id_def io_defs
      route53_requests_def ok_provider_def example_zones_def rstrip_examples)
    (subst deployed_blog_eq, simp add: example_blog_def init_def)+

lemma ok_records_issued:
  "issued (create_route53_records ok_provider cloudfront) example_blog =
     route53_requests example_blog ''/hostedzone/Z1EXAMPLECOM'' cloudfront"
  by (simp add: issued_def create_route53_records_def get_hosted_zone_id_def io_defs
      route53_requests_def example_defs rstrip_examples)

text \<open>
  C1, as the code has it. The certificate in every distribution configuration that
  \<open>create_cloudfront_distribution\<close> submits is the method's argument, and the alias
  target of every record that \<open>create_route53_records\<close> upserts is the method's
  argument: neither method reads the ledger for it. The distribution in the condition
  of every bucket policy that \<open>create_cloudfront_distribution\<close> puts is the
  distribution the ledger holds: the method stores it there before it builds the policy
  and does not change the ledger afterwards.
\<close>

theorem identifiers_used:
  "(CreateDistribution cfg \<in>
      set (issued (create_cloudfront_distribution P now certificate) self) \<longrightarrow>
      ACMCertificateArn (ViewerCertificate cfg) = certificate) \<and>
   (PutBucketPolicy bucket policy \<in>
      set (issued (create_cloudfront_distribution P now certificate) self) \<longrightarrow>
      (\<exists>account distribution.
         distribution_id (resources (snd (create_cloudfront_distribution P now certificate self))) =
           Some distribution \<and>
         map Condition_StringEquals_SourceArn (Statement policy) =
           [source_arn account distribution])) \<and>
   (ChangeResourceRecordSets zone changes \<in>
      set (issued (create_route53_records P cloudfront) self) \<and> c \<in> set changes \<longrightarrow>
      DNSName (AliasTarget (ResourceRecordSet c)) = cloudfront)"
proof (intro conjI impI)
  assume "CreateDistribution cfg \<in>
      set (issued (create_cloudfront_distribution P now certificate) self)"
  then obtain oac where "cfg = distribution_config self now certificate oac"
    using create_distribution_sent by blast
  then show "ACMCertificateArn (ViewerCertificate cfg) = certificate"
    by (simp add: distribution_config_def)
next
  assume "PutBucketPolicy bucket policy \<in>
      set (issued (create_cloudfront_distribution P now certificate) self)"
  then obtain account distribution where
    "distribution_id (resources (snd (create_cloudfront_distribution P now certificate self))) =
       Some distribution"
    and "policy = bucket_policy self account distribution"
    using bucket_policy_sent by blast
  then show "\<exists>account distribution.
         distribution_id (resources (snd (create_cloudfront_distribution P now certificate self))) =
           Some distribution \<and>
         map Condition_StringEquals_SourceArn (Statement policy) =
           [source_arn account distribution]"
    by (auto simp: bucket_policy_def)
next
  assume "ChangeResourceRecordSets zone changes \<in>
      set (issued (create_route53_records P cloudfront) self) \<and> c \<in> set changes"
  then have "c = alias_record (domain_name self) cloudfront \<or>
      c = alias_record (www_domain self) cloudfront"
    using record_change_sent [of zone changes P cloudfront self] by auto
  then show "DNSName (AliasTarget (ResourceRecordSet c)) = cloudfront"
    by (auto simp: alias_record_def)
qed

theorem identifiers_used_witness:
  "(CreateDistribution (distribution_config certified_blog 1700000000
       ''arn:aws:acm:us-east-1:111122223333:certificate/old'' ''E1OAC'') \<in>
      set (issued (create_cloudfront_distribution ok_provider 1700000000
                     ''arn:aws:acm:us-east-1:111122223333:certificate/old'') certified_blog) \<and>
    ACMCertificateArn (ViewerCertificate (distribution_config certified_blog 1700000000
       ''arn:aws:acm:us-east-1:111122223333:certificate/old'' ''E1OAC'')) =
      ''arn:aws:acm:us-east-1:111122223333:certificate/old'') \<and>
   (PutBucketPolicy ''example.com'' (bucket_policy certified_blog ''111122223333'' ''E2DIST'') \<in>
      set (issued (create_cloudfront_distribution ok_provider 1700000000
                     ''arn:aws:acm:us-east-1:111122223333:certificate/old'') certified_blog) \<and>
    (\<exists>account distribution.
       distribution_id (resources (snd (create_cloudfront_distribution ok_provider 1700000000
          ''arn:aws:acm:us-east-1:111122223333:certificate/old'' certified_blog))) =
         Some distribution \<and>
       map Condition_StringEquals_SourceArn
         (Statement (bucket_policy certified_blog ''111122223333'' ''E2DIST'')) =
         [source_arn account distribution])) \<and>
   (ChangeResourceRecordSets ''/hostedzone/Z1EXAMPLECOM''
      [alias_record (www_domain example_blog) ''d999.cloudfront.net''] \<in>
      set (issued (create_route53_records ok_provider ''d999.cloudfront.net'') example_blog) \<and>
    alias_record (www_domain example_blog) ''d999.cloudfront.net'' \<in>
      set [alias_record (www_domain example_blog) ''d999.cloudfront.net''] \<and>
    DNSName (AliasTarget (ResourceRecordSet
      (alias_record (www_domain example_blog) ''d999.cloudfront.net''))) = ''d999.cloudfront.net'')"
proof -
  have sent: "CreateDistribution (distribution_config certified_blog 1700000000
       ''arn:aws:acm:us-east-1:111122223333:certificate/old'' ''E1OAC'') \<in>
      set (issued (create_cloudfront_distribution ok_provider 1700000000
                     ''arn:aws:acm:us-east-1:111122223333:certificate/old'') certified_blog)"
    and bound: "PutBucketPolicy ''example.com''
        (bucket_policy certified_blog ''111122223333'' ''E2DIST'') \<in>
      set (issued (create_cloudfront_distribution ok_provider 1700000000
                     ''arn:aws:acm:us-east-1:111122223333:certificate/old'') certified_blog)"
    by (simp_all add: certified_run_issued)
  have published: "ChangeResourceRecordSets ''/hostedzone/Z1EXAMPLECOM''
      [alias_record (www_domain example_blog) ''d999.cloudfront.net''] \<in>
      set (issued (create_route53_records ok_provider ''d999.cloudfront.net'') example_blog)"
    by (simp add: ok_records_issued route53_requests_def)
  from sent bound published
    identifiers_used [where P = ok_provider and now = 1700000000
      and certificate = "''arn:aws:acm:us-east-1:111122223333:certificate/old''"
      and self = certified_blog
      and cfg = "distribution_config certified_blog 1700000000
        ''arn:aws:acm:us-east-1:111122223333:certificate/old'' ''E1OAC''"
      and bucket = "''example.com''"
      and policy = "bucket_policy certified_blog ''111122223333'' ''E2DIST''"]
    identifiers_used [where P = ok_provider and self = example_blog
      and cloudfront = "''d999.cloudfront.net''" and zone = "''/hostedzone/Z1EXAMPLECOM''"
      and changes = "[alias_record (www_domain example_blog) ''d999.cloudfront.net'']"
      and c = "alias_record (www_domain example_blog) ''d999.cloudfront.net''"]
  show ?thesis by simp
qed

text \<open>
  C1, as stated, fails. With the certificate \<open>.../new\<close> in the ledger,
  \<open>create_cloudfront_distribution\<close> called with \<open>.../old\<close> submits a configuration
  for \<open>.../old\<close>; with the distribution domain \<open>d111.cloudfront.net\<close> in the ledger,
  \<open>create_route53_records\<close> called with \<open>d999.cloudfront.net\<close> upserts aliases to
  \<open>d999.cloudfront.net\<close>.
\<close>

theorem ledger_not_consulted_counterexample:
  "(certificate_arn (resources certified_blog) =
      Some ''arn:aws:acm:us-east-1:111122223333:certificate/new'' \<and>
    issued (create_cloudfront_distribution ok_provider 1700000000
              ''arn:aws:acm:us-east-1:111122223333:certificate/old'') certified_blog =
      [CreateOriginAccessControl (oac_config certified_blog),
       CreateDistribution
         (distribution_config certified_blog 1700000000
            ''arn:aws:acm:us-east-1:111122223333:certificate/old'' ''E1OAC''),
       GetCallerIdentity,
       PutBucketPolicy ''example.com''
         (bucket_policy certified_blog ''111122223333'' ''E2DIST'')] \<and>
    ACMCertificateArn (ViewerCertificate
      (distribution_config certified_blog 1700000000
         ''arn:aws:acm:us-east-1:111122223333:certificate/old'' ''E1OAC'')) =
      ''arn:aws:acm:us-east-1:111122223333:certificate/old'') \<and>
   (cloudfront_domain (resources deployed_blog) = Some ''d111.cloudfront.net'' \<and>
    issued (create_route53_records ok_provider ''d999.cloudfront.net'') deployed_blog =
      [ListHostedZones,
       ChangeResourceRecordSets ''/hostedzone/Z1EXAMPLECOM''
         [alias_record ''example.com'' ''d999.cloudfront.net''],
       ChangeResourceRecordSets ''/hostedzone/Z1EXAMPLECOM''
         [alias_record ''www.example.com'' ''d999.cloudfront.net'']] \<and>
    DNSName (AliasTarget (ResourceRecordSet
      (alias_record ''example.com'' ''d999.cloudfront.net''))) = ''d999.cloudfront.net'')"
proof (intro conjI)
  show "certificate_arn (resources certified_blog) =
     Some ''arn:aws:acm:us-east-1:111122223333:certificate/new''"
    by (subst certified_blog_eq) simp
  show "issued (create_cloudfront_distribution ok_provider 1700000000
             ''arn:aws:acm:us-east-1:111122223333:certificate/old'') certified_blog =
     [CreateOriginAccessControl (oac_config certified_blog),
      CreateDistribution
        (distribution_config certified_blog 1700000000
           ''arn:aws:acm:us-east-1:111122223333:certificate/old'' ''E1OAC''),
      GetCallerIdentity,
      PutBucketPolicy ''example.com'' (bucket_policy certified_blog ''111122223333'' ''E2DIST'')]"
    by (rule certified_run_issued)
  show "ACMCertificateArn (ViewerCertificate
     (distribution_config certified_blog 1700000000
        ''arn:aws:acm:us-east-1:111122223333:certificate/old'' ''E1OAC'')) =
     ''arn:aws:acm:us-east-1:111122223333:certificate/old''"
    by (simp add: distribution_config_def)
  show "cloudfront_domain (resources deployed_blog) = Some ''d111.cloudfront.net''"
    by (subst deployed_blog_eq) simp
  show "issued (create_route53_records ok_provider ''d999.cloudfront.net'') deployed_blog =
      [ListHostedZones,
       ChangeResourceRecordSets ''/hostedzone/Z1EXAMPLECOM''
         [alias_record ''example.com'' ''d999.cloudfront.net''],
       ChangeResourceRecordSets ''/hostedzone/Z1EXAMPLECOM''
         [alias_record ''www.example.com'' ''d999.cloudfront.net'']]"
    unfolding deployed_records_issued route53_requests_def
    by (subst (1 2) deployed_blog_eq) (simp add: example_blog_def init_def)
  show "DNSName (AliasTarget (ResourceRecordSet
      (alias_record ''example.com'' ''d999.cloudfront.net''))) = ''d999.cloudfront.net''"
    by (simp add: alias_record_def)
qed

end
